theory Spec2Isabelle
  imports Main "HOL-Library.Word"
begin

unbundle bit_operations_syntax

section \<open>Machine integers\<close>

type_synonym u32 = "32 word"
type_synonym u64 = "64 word"

section \<open>TextureCacheBase::TCacheEntryConfig\<close>

text \<open>
  The enumerators of \<open>PC_TexFormat\<close> that the texture cache names. The enum itself is
  declared in VideoCommon/TextureDecoder.h; the numeric value of each enumerator is taken
  as a parameter \<open>fmt\<close> of the functions that compare against them.
\<close>

datatype PC_TexFormat =
    PC_TEX_FMT_NONE
  | PC_TEX_FMT_BGRA32
  | PC_TEX_FMT_RGBA32
  | PC_TEX_FMT_I4_AS_I8
  | PC_TEX_FMT_IA4_AS_IA8
  | PC_TEX_FMT_I8
  | PC_TEX_FMT_IA8
  | PC_TEX_FMT_RGB565
  | PC_TEX_FMT_DXT1
  | PC_TEX_FMT_DXT3
  | PC_TEX_FMT_DXT5
  | PC_TEX_FMT_R32

text \<open>
  \<open>struct TCacheEntryConfig\<close>: four \<open>u32\<close> fields, two flags and the pixel format,
  held as the integer value of the enum (a config may carry a value no enumerator names).
\<close>

record TCacheEntryConfig =
  width :: u32
  height :: u32
  levels :: u32
  layers :: u32
  rendertarget :: bool
  materialmap :: bool
  pcformat :: u32

text \<open>
  \<open>GetSizeInBytes\<close>. All arithmetic is on \<open>u32\<close> and wraps; \<open>~3\<close> is the
  \<open>int\<close> -4, converted to \<open>0xFFFFFFFC\<close> by the usual arithmetic conversions.
\<close>

definition GetSizeInBytes :: "(PC_TexFormat \<Rightarrow> u32) \<Rightarrow> TCacheEntryConfig \<Rightarrow> u32" where
  "GetSizeInBytes fmt c =
     (let result =
            (if pcformat c = fmt PC_TEX_FMT_BGRA32 \<or> pcformat c = fmt PC_TEX_FMT_RGBA32
             then ((width c + 3) AND NOT 3) * ((height c + 3) AND NOT 3) * 4
             else if pcformat c = fmt PC_TEX_FMT_IA4_AS_IA8 \<or> pcformat c = fmt PC_TEX_FMT_IA8
                     \<or> pcformat c = fmt PC_TEX_FMT_RGB565
             then ((width c + 3) AND NOT 3) * ((height c + 3) AND NOT 3) * 2
             else if pcformat c = fmt PC_TEX_FMT_DXT1
             then drop_bit 2 (width c + 3) * drop_bit 2 (height c + 3) * 8
             else if pcformat c = fmt PC_TEX_FMT_DXT3 \<or> pcformat c = fmt PC_TEX_FMT_DXT5
             then drop_bit 2 (width c + 3) * drop_bit 2 (height c + 3) * 16
             else 0);
          result = (if 1 < levels c \<or> rendertarget c then result + result * 2 else result);
          result = (if materialmap c then result * 2 else result)
      in max result 4096)"

text \<open>\<open>operator==\<close>: the tuples of the seven fields are compared.\<close>

definition config_eq :: "TCacheEntryConfig \<Rightarrow> TCacheEntryConfig \<Rightarrow> bool" where
  "config_eq c o' \<longleftrightarrow>
     (width c, height c, levels c, layers c, rendertarget c, pcformat c, materialmap c) =
     (width o', height o', levels o', layers o', rendertarget o', pcformat o', materialmap o')"

text \<open>
  \<open>Hasher::operator()\<close>. Every field is widened to \<open>u64\<close> before it is shifted; the
  result type \<open>size_t\<close> is taken to be 64 bits wide.
\<close>

definition Hasher :: "TCacheEntryConfig \<Rightarrow> u64" where
  "Hasher c =
     push_bit 57 (of_bool (materialmap c))
     OR push_bit 56 (of_bool (rendertarget c))
     OR push_bit 48 (ucast (pcformat c))
     OR push_bit 40 (ucast (layers c))
     OR push_bit 32 (ucast (levels c))
     OR push_bit 16 (ucast (height c))
     OR ucast (width c)"

text \<open>The configs whose fields fit the bit fields the hash gives them.\<close>

definition in_range :: "TCacheEntryConfig \<Rightarrow> bool" where
  "in_range c \<longleftrightarrow>
     width c < 2 ^ 16 \<and> height c < 2 ^ 16 \<and> levels c < 2 ^ 8 \<and> layers c < 2 ^ 8
     \<and> pcformat c < 2 ^ 8"

definition cfgA :: TCacheEntryConfig where
  "cfgA = \<lparr>width = 640, height = 480, levels = 1, layers = 1, rendertarget = True,
     materialmap = False, pcformat = 2\<rparr>"

section \<open>VertexShaderManager: dirty tracking over XF memory\<close>

text \<open>
  The address map of XF memory (the \<open>XFMEM_*\<close> enumerators) is declared in
  VideoCommon/XFMemory.h. The functions below take it as a parameter; \<open>gx_xfmem\<close> is
  the map of the console, used where a concrete address is evaluated.
\<close>

record XFMemLayout =
  XFMEM_POSMATRICES_END :: u32
  XFMEM_NORMALMATRICES :: u32
  XFMEM_NORMALMATRICES_END :: u32
  XFMEM_POSTMATRICES :: u32
  XFMEM_POSTMATRICES_END :: u32
  XFMEM_LIGHTS :: u32
  XFMEM_LIGHTS_END :: u32

definition gx_xfmem :: XFMemLayout where
  "gx_xfmem = \<lparr>XFMEM_POSMATRICES_END = 0x100,
     XFMEM_NORMALMATRICES = 0x400, XFMEM_NORMALMATRICES_END = 0x460,
     XFMEM_POSTMATRICES = 0x500, XFMEM_POSTMATRICES_END = 0x600,
     XFMEM_LIGHTS = 0x600, XFMEM_LIGHTS_END = 0x680\<rparr>"

text \<open>
  \<open>g_main_cp_state.matrix_index_a\<close> and \<open>matrix_index_b\<close>: the eight texture matrix
  indices, read as unsigned values.
\<close>

record CPState =
  Tex0MtxIdx :: u32
  Tex1MtxIdx :: u32
  Tex2MtxIdx :: u32
  Tex3MtxIdx :: u32
  Tex4MtxIdx :: u32
  Tex5MtxIdx :: u32
  Tex6MtxIdx :: u32
  Tex7MtxIdx :: u32

text \<open>
  What \<open>SetConstants\<close> reads and does not write: the active configuration, the CP state
  and the parts of \<open>xfmem\<close> that decide which calls are made. The floating-point values
  that are uploaded are functions of this environment alone, so an upload is recorded by
  its destination, its length and its source, not by its value.
\<close>

datatype projection_type = GX_PERSPECTIVE | GX_ORTHOGRAPHIC | GX_UNKNOWN_PROJECTION

record VSEnv =
  iRimBase :: int
  iRimPower :: int
  iRimIntesity :: int
  iSpecularMultiplier :: int
  iSimBumpStrength :: int
  iSimBumpThreshold :: int
  iSimBumpDetailBlend :: int
  iSimBumpDetailFrequency :: int
  bSupportsOversizedViewports :: bool
  bSupportsPostProcessing :: bool
  has_post_processor :: bool
  xf_projection_type :: projection_type
  light_distatt_is_zero :: "int \<Rightarrow> bool"
  cp :: CPState

text \<open>The constant-buffer blocks (\<open>C_*\<close> of VertexShaderGen.h), kept symbolic.\<close>

datatype const_block =
    C_PHONG | C_TRANSFORMMATRICES | C_NORMALMATRICES | C_POSTTRANSFORMMATRICES
  | C_LIGHTS | C_MATERIALS | C_TEXMATRICES | C_DEPTHPARAMS | C_PROJECTION

datatype xf_source =
    PosMatrices int | NormalMatrices int | PostMatrices int | CorrectedMtx

text \<open>
  Everything \<open>SetConstants\<close> does beyond its own dirty markers, in program order: the
  writes to \<open>m_buffer\<close> (register = block + offset), the calls into the renderer and
  the post-processor, and the recomputation of \<open>s_viewportCorrection\<close> and
  \<open>g_fProjectionMatrix\<close>.
\<close>

datatype vs_event =
    SetConstant4 const_block int
  | SetConstant3v const_block int
  | SetMultiConstant4v const_block int int xf_source
  | SetMultiConstant3v const_block int int xf_source
  | Renderer_SetViewport
  | ViewportCorrectionMatrix
  | OnProjectionLoaded projection_type
  | ProjectionMatrixComputed projection_type
  | ERROR_LOG_unknown_projection

text \<open>
  The static variables of VertexShaderManager. The \<open>int[2]\<close> arrays are (min, max)
  pairs; \<open>s_lights_phong\<close> is an array indexed from 0.
\<close>

record VSState =
  bProjectionChanged :: bool
  bViewportChanged :: bool
  s_materials_changed :: u32
  s_tex_matrices_changed :: "bool \<times> bool"
  s_transform_matrices_changed :: "int \<times> int"
  s_normal_matrices_changed :: "int \<times> int"
  nPostTransformMatricesChanged :: "int \<times> int"
  s_lights_changed :: "int \<times> int"
  s_lights_phong :: "nat \<Rightarrow> int"
  events :: "vs_event list"

text \<open>C's integer division truncates towards zero.\<close>

definition c_div :: "int \<Rightarrow> int \<Rightarrow> int" where
  "c_div a b = sgn a * sgn b * (\<bar>a\<bar> div \<bar>b\<bar>)"

text \<open>Conversion of a \<open>u32\<close> value to \<open>int\<close> (two's complement).\<close>

definition to_int :: "u32 \<Rightarrow> int" where
  "to_int w = sint w"

subsection \<open>Dirty\<close>

definition Dirty :: "VSState \<Rightarrow> VSState" where
  "Dirty s = s\<lparr>
     s_transform_matrices_changed := (0, 256),
     s_normal_matrices_changed := (0, 96),
     nPostTransformMatricesChanged := (0, 256),
     s_lights_changed := (0, 0x80),
     s_tex_matrices_changed := (True, True),
     bProjectionChanged := True,
     s_materials_changed := 15,
     s_lights_phong := (\<lambda>_. 0)\<rparr>"

subsection \<open>InvalidateXFRange\<close>

text \<open>The merge of a range into a (min, max) pair that every region repeats.\<close>

definition merge_range :: "int \<times> int \<Rightarrow> int \<Rightarrow> int \<Rightarrow> int \<times> int" where
  "merge_range r start' end' =
     (if fst r = -1 then (start', end')
      else (if start' < fst r then start' else fst r,
            if snd r < end' then end' else snd r))"

definition tex_hit :: "u32 \<Rightarrow> u32 \<Rightarrow> bool" where
  "tex_hit start idx \<longleftrightarrow> idx * 4 \<le> start \<and> start < idx * 4 + 12"

definition invalidate_tex :: "CPState \<Rightarrow> u32 \<Rightarrow> VSState \<Rightarrow> VSState" where
  "invalidate_tex c start s =
     (let s = (if tex_hit start (Tex0MtxIdx c) \<or> tex_hit start (Tex1MtxIdx c)
                  \<or> tex_hit start (Tex2MtxIdx c) \<or> tex_hit start (Tex3MtxIdx c)
               then s\<lparr>s_tex_matrices_changed := (True, snd (s_tex_matrices_changed s))\<rparr>
               else s)
      in if tex_hit start (Tex4MtxIdx c) \<or> tex_hit start (Tex5MtxIdx c)
            \<or> tex_hit start (Tex6MtxIdx c) \<or> tex_hit start (Tex7MtxIdx c)
         then s\<lparr>s_tex_matrices_changed := (fst (s_tex_matrices_changed s), True)\<rparr>
         else s)"

text \<open>
  The position matrices: the minimum is \<open>start\<close> itself, and the maximum is clamped
  only when it is raised.
\<close>

definition invalidate_transform :: "XFMemLayout \<Rightarrow> u32 \<Rightarrow> u32 \<Rightarrow> VSState \<Rightarrow> VSState" where
  "invalidate_transform m start end' s =
     (if start < XFMEM_POSMATRICES_END m then
        (let r = s_transform_matrices_changed s;
             clamped = to_int (if XFMEM_POSMATRICES_END m < end'
                               then XFMEM_POSMATRICES_END m else end')
         in if fst r = -1
            then s\<lparr>s_transform_matrices_changed := (to_int start, clamped)\<rparr>
            else s\<lparr>s_transform_matrices_changed :=
                   (if to_int start < fst r then to_int start else fst r,
                    if snd r < to_int end' then clamped else snd r)\<rparr>)
      else s)"

definition invalidate_normal :: "XFMemLayout \<Rightarrow> u32 \<Rightarrow> u32 \<Rightarrow> VSState \<Rightarrow> VSState" where
  "invalidate_normal m start end' s =
     (if start < XFMEM_NORMALMATRICES_END m \<and> XFMEM_NORMALMATRICES m < end' then
        (let start' = to_int (if start < XFMEM_NORMALMATRICES m then 0
                              else start - XFMEM_NORMALMATRICES m);
             end'' = to_int (if end' < XFMEM_NORMALMATRICES_END m
                             then end' - XFMEM_NORMALMATRICES m
                             else XFMEM_NORMALMATRICES_END m - XFMEM_NORMALMATRICES m)
         in s\<lparr>s_normal_matrices_changed :=
               merge_range (s_normal_matrices_changed s) start' end''\<rparr>)
      else s)"

text \<open>
  The post-transform matrices and the lights: for a \<open>start\<close> below the region the source
  takes the region's base address as the relative start.
\<close>

definition invalidate_post :: "XFMemLayout \<Rightarrow> u32 \<Rightarrow> u32 \<Rightarrow> VSState \<Rightarrow> VSState" where
  "invalidate_post m start end' s =
     (if start < XFMEM_POSTMATRICES_END m \<and> XFMEM_POSTMATRICES m < end' then
        (let start' = to_int (if start < XFMEM_POSTMATRICES m then XFMEM_POSTMATRICES m
                              else start - XFMEM_POSTMATRICES m);
             end'' = to_int (if end' < XFMEM_POSTMATRICES_END m
                             then end' - XFMEM_POSTMATRICES m
                             else XFMEM_POSTMATRICES_END m - XFMEM_POSTMATRICES m)
         in s\<lparr>nPostTransformMatricesChanged :=
               merge_range (nPostTransformMatricesChanged s) start' end''\<rparr>)
      else s)"

definition invalidate_lights :: "XFMemLayout \<Rightarrow> u32 \<Rightarrow> u32 \<Rightarrow> VSState \<Rightarrow> VSState" where
  "invalidate_lights m start end' s =
     (if start < XFMEM_LIGHTS_END m \<and> XFMEM_LIGHTS m < end' then
        (let start' = to_int (if start < XFMEM_LIGHTS m then XFMEM_LIGHTS m
                              else start - XFMEM_LIGHTS m);
             end'' = to_int (if end' < XFMEM_LIGHTS_END m
                             then end' - XFMEM_LIGHTS m
                             else XFMEM_LIGHTS_END m - XFMEM_LIGHTS m)
         in s\<lparr>s_lights_changed := merge_range (s_lights_changed s) start' end''\<rparr>)
      else s)"

definition InvalidateXFRange ::
  "XFMemLayout \<Rightarrow> CPState \<Rightarrow> u32 \<Rightarrow> u32 \<Rightarrow> VSState \<Rightarrow> VSState" where
  "InvalidateXFRange m c start end' s =
     invalidate_lights m start end'
       (invalidate_post m start end'
         (invalidate_normal m start end'
           (invalidate_transform m start end'
             (invalidate_tex c start s))))"

subsection \<open>SetConstants\<close>

definition emit :: "vs_event list \<Rightarrow> VSState \<Rightarrow> VSState" where
  "emit es s = s\<lparr>events := events s @ es\<rparr>"

definition set_phong_rim :: "VSEnv \<Rightarrow> VSState \<Rightarrow> VSState" where
  "set_phong_rim e s =
     (if iRimBase e \<noteq> s_lights_phong s 0 \<or> iRimPower e \<noteq> s_lights_phong s 1
         \<or> iRimIntesity e \<noteq> s_lights_phong s 2
         \<or> iSpecularMultiplier e \<noteq> s_lights_phong s 3
      then emit [SetConstant4 C_PHONG 0]
             (s\<lparr>s_lights_phong := (s_lights_phong s)
                  (0 := iRimBase e, 1 := iRimPower e, 2 := iRimIntesity e,
                   3 := iSpecularMultiplier e)\<rparr>)
      else s)"

definition set_phong_bump :: "VSEnv \<Rightarrow> VSState \<Rightarrow> VSState" where
  "set_phong_bump e s =
     (if iSimBumpStrength e \<noteq> s_lights_phong s 4
         \<or> iSimBumpThreshold e \<noteq> s_lights_phong s 5
         \<or> iSimBumpDetailBlend e \<noteq> s_lights_phong s 6
         \<or> iSimBumpDetailFrequency e \<noteq> s_lights_phong s 7
      then emit [SetConstant4 C_PHONG 1]
             (s\<lparr>s_lights_phong := (s_lights_phong s)
                  (4 := iSimBumpStrength e, 5 := iSimBumpThreshold e,
                   6 := iSimBumpDetailBlend e, 7 := iSimBumpDetailFrequency e)\<rparr>)
      else s)"

definition upload_transform :: "VSState \<Rightarrow> VSState" where
  "upload_transform s =
     (let r = s_transform_matrices_changed s in
      if 0 \<le> fst r then
        (let startn = c_div (fst r) 4; endn = c_div (snd r + 3) 4
         in emit [SetMultiConstant4v C_TRANSFORMMATRICES startn (endn - startn)
                    (PosMatrices (startn * 4))]
              (s\<lparr>s_transform_matrices_changed := (-1, -1)\<rparr>))
      else s)"

definition upload_normal :: "VSState \<Rightarrow> VSState" where
  "upload_normal s =
     (let r = s_normal_matrices_changed s in
      if 0 \<le> fst r then
        (let startn = c_div (fst r) 3; endn = c_div (snd r + 2) 3
         in emit [SetMultiConstant3v C_NORMALMATRICES startn (endn - startn)
                    (NormalMatrices (3 * startn))]
              (s\<lparr>s_normal_matrices_changed := (-1, -1)\<rparr>))
      else s)"

definition upload_post :: "VSState \<Rightarrow> VSState" where
  "upload_post s =
     (let r = nPostTransformMatricesChanged s in
      if 0 \<le> fst r then
        (let startn = c_div (fst r) 4; endn = c_div (snd r + 3) 4
         in emit [SetMultiConstant4v C_POSTTRANSFORMMATRICES startn (endn - startn)
                    (PostMatrices (startn * 4))]
              (s\<lparr>nPostTransformMatricesChanged := (-1, -1)\<rparr>))
      else s)"

text \<open>
  One light is five registers; the third is written by \<open>SetConstant4\<close> when the distance
  attenuation is (nearly) zero and by \<open>SetConstant3v\<close> otherwise.
\<close>

definition light_events :: "VSEnv \<Rightarrow> int \<Rightarrow> vs_event list" where
  "light_events e i =
     [SetConstant4 C_LIGHTS (5 * i),
      SetConstant3v C_LIGHTS (5 * i + 1),
      (if light_distatt_is_zero e i then SetConstant4 C_LIGHTS (5 * i + 2)
       else SetConstant3v C_LIGHTS (5 * i + 2)),
      SetConstant3v C_LIGHTS (5 * i + 3),
      SetConstant4 C_LIGHTS (5 * i + 4)]"

definition upload_lights :: "VSEnv \<Rightarrow> VSState \<Rightarrow> VSState" where
  "upload_lights e s =
     (let r = s_lights_changed s in
      if 0 \<le> fst r then
        (let istart = c_div (fst r) 0x10; iend = c_div (snd r + 15) 0x10
         in emit (concat (map (light_events e) [istart..iend - 1]))
              (s\<lparr>s_lights_changed := (-1, -1)\<rparr>))
      else s)"

definition material_events :: "u32 \<Rightarrow> vs_event list" where
  "material_events mc =
     concat (map (\<lambda>i. if mc AND push_bit i 1 \<noteq> 0
                       then [SetConstant4 C_MATERIALS (int i)] else []) [0, 1])
     @ concat (map (\<lambda>i. if mc AND push_bit (i + 2) 1 \<noteq> 0
                         then [SetConstant4 C_MATERIALS (int i + 2)] else []) [0, 1])"

definition upload_materials :: "VSState \<Rightarrow> VSState" where
  "upload_materials s =
     (if s_materials_changed s \<noteq> 0
      then emit (material_events (s_materials_changed s)) (s\<lparr>s_materials_changed := 0\<rparr>)
      else s)"

definition upload_tex_a :: "VSEnv \<Rightarrow> VSState \<Rightarrow> VSState" where
  "upload_tex_a e s =
     (if fst (s_tex_matrices_changed s) then
        emit [SetMultiConstant4v C_TEXMATRICES 0 3 (PosMatrices (uint (Tex0MtxIdx (cp e)) * 4)),
              SetMultiConstant4v C_TEXMATRICES 3 3 (PosMatrices (uint (Tex1MtxIdx (cp e)) * 4)),
              SetMultiConstant4v C_TEXMATRICES 6 3 (PosMatrices (uint (Tex2MtxIdx (cp e)) * 4)),
              SetMultiConstant4v C_TEXMATRICES 9 3 (PosMatrices (uint (Tex3MtxIdx (cp e)) * 4))]
          (s\<lparr>s_tex_matrices_changed := (False, snd (s_tex_matrices_changed s))\<rparr>)
      else s)"

definition upload_tex_b :: "VSEnv \<Rightarrow> VSState \<Rightarrow> VSState" where
  "upload_tex_b e s =
     (if snd (s_tex_matrices_changed s) then
        emit [SetMultiConstant4v C_TEXMATRICES 12 3 (PosMatrices (uint (Tex4MtxIdx (cp e)) * 4)),
              SetMultiConstant4v C_TEXMATRICES 15 3 (PosMatrices (uint (Tex5MtxIdx (cp e)) * 4)),
              SetMultiConstant4v C_TEXMATRICES 18 3 (PosMatrices (uint (Tex6MtxIdx (cp e)) * 4)),
              SetMultiConstant4v C_TEXMATRICES 21 3 (PosMatrices (uint (Tex7MtxIdx (cp e)) * 4))]
          (s\<lparr>s_tex_matrices_changed := (fst (s_tex_matrices_changed s), False)\<rparr>)
      else s)"

definition update_viewport :: "VSEnv \<Rightarrow> VSState \<Rightarrow> VSState" where
  "update_viewport e s =
     (if bViewportChanged s then
        (let s = emit [SetConstant4 C_DEPTHPARAMS 0, Renderer_SetViewport]
                   (s\<lparr>bViewportChanged := False\<rparr>)
         in if bSupportsOversizedViewports e then s
            else emit [ViewportCorrectionMatrix] (s\<lparr>bProjectionChanged := True\<rparr>))
      else s)"

text \<open>
  The switch on the projection type writes \<open>g_fProjectionMatrix\<close> for a perspective and
  for an orthographic projection. For any other type it only logs an error and leaves the
  matrix as it was. In every case the matrix is then corrected and uploaded.
\<close>

definition update_projection :: "VSEnv \<Rightarrow> VSState \<Rightarrow> VSState" where
  "update_projection e s =
     (if bProjectionChanged s then
        emit ((if bSupportsPostProcessing e \<and> has_post_processor e
               then [OnProjectionLoaded (xf_projection_type e)] else [])
              @ (case xf_projection_type e of
                   GX_PERSPECTIVE \<Rightarrow> [ProjectionMatrixComputed GX_PERSPECTIVE]
                 | GX_ORTHOGRAPHIC \<Rightarrow> [ProjectionMatrixComputed GX_ORTHOGRAPHIC]
                 | GX_UNKNOWN_PROJECTION \<Rightarrow> [ERROR_LOG_unknown_projection])
              @ [SetMultiConstant4v C_PROJECTION 0 4 CorrectedMtx])
          (s\<lparr>bProjectionChanged := False\<rparr>)
      else s)"

definition SetConstants :: "VSEnv \<Rightarrow> VSState \<Rightarrow> VSState" where
  "SetConstants e s =
     update_projection e
       (update_viewport e
         (upload_tex_b e
           (upload_tex_a e
             (upload_materials
               (upload_lights e
                 (upload_post
                   (upload_normal
                     (upload_transform
                       (set_phong_bump e
                         (set_phong_rim e s))))))))))"

text \<open>
  The state every operation above keeps: a (min, max) pair is either the empty marker
  \<open>(-1, -1)\<close> or has a non-negative minimum.
\<close>

definition range_ok :: "int \<times> int \<Rightarrow> bool" where
  "range_ok r \<longleftrightarrow> r = (-1, -1) \<or> 0 \<le> fst r"

definition dirty_inv :: "VSState \<Rightarrow> bool" where
  "dirty_inv s \<longleftrightarrow>
     range_ok (s_transform_matrices_changed s) \<and> range_ok (s_normal_matrices_changed s)
     \<and> range_ok (nPostTransformMatricesChanged s) \<and> range_ok (s_lights_changed s)"

text \<open>Whether a (min, max) pair covers the closed range from \<open>lo\<close> to \<open>hi\<close>.\<close>

definition covers :: "int \<times> int \<Rightarrow> int \<Rightarrow> int \<Rightarrow> bool" where
  "covers r lo hi \<longleftrightarrow> fst r \<le> lo \<and> hi \<le> snd r"

text \<open>Sample states and environment for evaluation.\<close>

definition vs_zero :: VSState where
  "vs_zero = \<lparr>bProjectionChanged = False, bViewportChanged = False,
     s_materials_changed = 0, s_tex_matrices_changed = (False, False),
     s_transform_matrices_changed = (0, 0), s_normal_matrices_changed = (0, 0),
     nPostTransformMatricesChanged = (0, 0), s_lights_changed = (0, 0),
     s_lights_phong = (\<lambda>_. 0), events = []\<rparr>"

definition vs_clean :: VSState where
  "vs_clean = \<lparr>bProjectionChanged = False, bViewportChanged = False,
     s_materials_changed = 0, s_tex_matrices_changed = (False, False),
     s_transform_matrices_changed = (-1, -1), s_normal_matrices_changed = (-1, -1),
     nPostTransformMatricesChanged = (-1, -1), s_lights_changed = (-1, -1),
     s_lights_phong = (\<lambda>_. 0), events = []\<rparr>"

definition cp_zero :: CPState where
  "cp_zero = \<lparr>Tex0MtxIdx = 0, Tex1MtxIdx = 0, Tex2MtxIdx = 0, Tex3MtxIdx = 0,
     Tex4MtxIdx = 0, Tex5MtxIdx = 0, Tex6MtxIdx = 0, Tex7MtxIdx = 0\<rparr>"

definition env0 :: VSEnv where
  "env0 = \<lparr>iRimBase = 0, iRimPower = 0, iRimIntesity = 0, iSpecularMultiplier = 0,
     iSimBumpStrength = 0, iSimBumpThreshold = 0, iSimBumpDetailBlend = 0,
     iSimBumpDetailFrequency = 0, bSupportsOversizedViewports = False,
     bSupportsPostProcessing = False, has_post_processor = False,
     xf_projection_type = GX_PERSPECTIVE, light_distatt_is_zero = (\<lambda>_. False),
     cp = cp_zero\<rparr>"

section \<open>Vulkan ObjectCache: pipelines and shader modules\<close>

text \<open>
  Vulkan handles are numbers; \<open>VK_NULL_HANDLE\<close> is 0. A SPIR-V binary is a vector of
  32-bit words.
\<close>

type_synonym VkPipeline = nat
type_synonym VkShaderModule = nat
type_synonym SPIRVCodeVector = "u32 list"

definition VK_NULL_HANDLE :: nat where
  "VK_NULL_HANDLE = 0"

datatype VkResult = VK_SUCCESS | VK_ERROR int

text \<open>
  \<open>PipelineInfo\<close>, with the members \<open>GetPipeline\<close> reads. The three state members are
  bit-field unions; each is held as its 32-bit pattern.
\<close>

record PipelineInfo =
  vertex_format :: nat
  pipeline_layout :: nat
  vs :: VkShaderModule
  gs :: VkShaderModule
  ps :: VkShaderModule
  render_pass :: nat
  rasterization_state :: u32
  depth_stencil_state :: u32
  blend_state :: u32
  primitive_topology :: nat

datatype VkShaderStage =
  VK_SHADER_STAGE_VERTEX_BIT | VK_SHADER_STAGE_GEOMETRY_BIT | VK_SHADER_STAGE_FRAGMENT_BIT

text \<open>
  The part of \<open>VkGraphicsPipelineCreateInfo\<close> that depends on the \<open>PipelineInfo\<close>;
  the viewport and dynamic state are constants of the source. A vertex input state of
  \<open>None\<close> is \<open>empty_vertex_input_state\<close>.
\<close>

record VkGraphicsPipelineCreateInfo =
  pStages :: "(VkShaderStage \<times> VkShaderModule) list"
  pVertexInputState :: "nat option"
  topology :: nat
  pRasterizationState :: u32
  pMultisampleState :: u32
  pDepthStencilState :: u32
  pColorBlendState :: u32
  layout :: nat
  renderPass :: nat

definition shader_stages :: "PipelineInfo \<Rightarrow> (VkShaderStage \<times> VkShaderModule) list" where
  "shader_stages info =
     (if vs info \<noteq> VK_NULL_HANDLE then [(VK_SHADER_STAGE_VERTEX_BIT, vs info)] else [])
     @ (if gs info \<noteq> VK_NULL_HANDLE then [(VK_SHADER_STAGE_GEOMETRY_BIT, gs info)] else [])
     @ (if ps info \<noteq> VK_NULL_HANDLE then [(VK_SHADER_STAGE_FRAGMENT_BIT, ps info)] else [])"

definition pipeline_create_info :: "PipelineInfo \<Rightarrow> VkGraphicsPipelineCreateInfo" where
  "pipeline_create_info info =
     \<lparr>pStages = shader_stages info,
      pVertexInputState = (if vertex_format info \<noteq> 0 then Some (vertex_format info) else None),
      topology = primitive_topology info,
      pRasterizationState = rasterization_state info,
      pMultisampleState = rasterization_state info,
      pDepthStencilState = depth_stencil_state info,
      pColorBlendState = blend_state info,
      layout = pipeline_layout info,
      renderPass = render_pass info\<rparr>"

text \<open>
  The shader compiler and the Vulkan driver are outside the program. They are functions
  of a world \<open>'w\<close> that every call may change, so two calls with the same arguments need
  not give the same result. \<open>CompileVertexShader\<close> stands for the code generator followed
  by \<open>ShaderCompiler::CompileVertexShader\<close> (\<open>None\<close> when it returns false), and
  likewise for the other two stages.
\<close>

record ('v, 'g, 'p, 'w) Vulkan =
  CompileVertexShader :: "'w \<Rightarrow> 'v \<Rightarrow> SPIRVCodeVector option \<times> 'w"
  CompileGeometryShader :: "'w \<Rightarrow> 'g \<Rightarrow> SPIRVCodeVector option \<times> 'w"
  CompileFragmentShader :: "'w \<Rightarrow> 'p \<Rightarrow> SPIRVCodeVector option \<times> 'w"
  CreateShaderModule :: "'w \<Rightarrow> SPIRVCodeVector \<Rightarrow> VkShaderModule \<times> 'w"
  vkCreateGraphicsPipelines ::
    "'w \<Rightarrow> VkGraphicsPipelineCreateInfo \<Rightarrow> (VkResult \<times> VkPipeline) \<times> 'w"

text \<open>
  \<open>vkShaderItem\<close>, with the three members the source uses: the \<open>atomic_flag\<close>
  \<open>initialized\<close>, \<open>compiled\<close> and \<open>module\<close>.
\<close>

record vkShaderItem =
  initialized :: bool
  compiled :: bool
  shader_module :: VkShaderModule

text \<open>One shader cache: the in-memory map and the entries appended to the disk cache.\<close>

record 'u ShaderCache =
  shader_map :: "'u \<rightharpoonup> vkShaderItem"
  disk_cache :: "('u \<times> SPIRVCodeVector) list"

record Statistics =
  numVertexShadersCreated :: int
  numVertexShadersAlive :: int
  numPixelShadersCreated :: int
  numPixelShadersAlive :: int

text \<open>
  The members of \<open>ObjectCache\<close> the functions below touch, the statistics, the world,
  and the Vulkan errors logged. \<open>compile_attempts\<close> is instrumentation, not a variable
  of the source: every call of a \<open>Compile*ShaderForUid\<close> function appends its UID.
\<close>

record ('v, 'g, 'p, 'w) ObjectCache =
  m_pipeline_objects :: "PipelineInfo \<rightharpoonup> VkPipeline"
  m_vs_cache :: "'v ShaderCache"
  m_gs_cache :: "'g ShaderCache"
  m_ps_cache :: "'p ShaderCache"
  stats :: Statistics
  world :: 'w
  vulkan_errors :: "VkResult list"
  compile_attempts :: "('v + 'g + 'p) list"

subsection \<open>GetPipeline\<close>

definition GetPipeline ::
  "('v, 'g, 'p, 'w) Vulkan \<Rightarrow> PipelineInfo \<Rightarrow> ('v, 'g, 'p, 'w) ObjectCache
     \<Rightarrow> VkPipeline \<times> ('v, 'g, 'p, 'w) ObjectCache" where
  "GetPipeline V info s =
     (case m_pipeline_objects s info of
        Some pipeline \<Rightarrow> (pipeline, s)
      | None \<Rightarrow>
          (let ((res, pipeline), w) =
                 vkCreateGraphicsPipelines V (world s) (pipeline_create_info info);
               s = s\<lparr>world := w\<rparr>;
               s = (if res \<noteq> VK_SUCCESS then s\<lparr>vulkan_errors := vulkan_errors s @ [res]\<rparr>
                    else s)
           in (pipeline, s\<lparr>m_pipeline_objects := (m_pipeline_objects s)(info \<mapsto> pipeline)\<rparr>)))"

subsection \<open>Compiling a shader for a UID\<close>

text \<open>
  The three functions differ in the compiler they call, the cache they append to and the
  statistics they count. The item is marked compiled and gets the module, null or not.
\<close>

definition append_disk :: "'u \<Rightarrow> SPIRVCodeVector \<Rightarrow> 'u ShaderCache \<Rightarrow> 'u ShaderCache" where
  "append_disk uid spv c = c\<lparr>disk_cache := disk_cache c @ [(uid, spv)]\<rparr>"

definition CompileVertexShaderForUid ::
  "('v, 'g, 'p, 'w) Vulkan \<Rightarrow> 'v \<Rightarrow> vkShaderItem \<Rightarrow> ('v, 'g, 'p, 'w) ObjectCache
     \<Rightarrow> vkShaderItem \<times> ('v, 'g, 'p, 'w) ObjectCache" where
  "CompileVertexShaderForUid V uid it s =
     (let s = s\<lparr>compile_attempts := compile_attempts s @ [Inl uid]\<rparr>;
          (spv, w) = CompileVertexShader V (world s) uid;
          s = s\<lparr>world := w\<rparr>;
          (m, s) =
            (case spv of
               None \<Rightarrow> (VK_NULL_HANDLE, s)
             | Some spv \<Rightarrow>
                 (let (m, w) = CreateShaderModule V (world s) spv;
                      s = s\<lparr>world := w\<rparr>
                  in (m, if m \<noteq> VK_NULL_HANDLE
                         then s\<lparr>m_vs_cache := append_disk uid spv (m_vs_cache s),
                                stats := (stats s)\<lparr>
                                  numVertexShadersCreated := numVertexShadersCreated (stats s) + 1,
                                  numVertexShadersAlive := numVertexShadersAlive (stats s) + 1\<rparr>\<rparr>
                         else s)))
      in (it\<lparr>compiled := True, shader_module := m\<rparr>, s))"

definition CompileGeometryShaderForUid ::
  "('v, 'g, 'p, 'w) Vulkan \<Rightarrow> 'g \<Rightarrow> vkShaderItem \<Rightarrow> ('v, 'g, 'p, 'w) ObjectCache
     \<Rightarrow> vkShaderItem \<times> ('v, 'g, 'p, 'w) ObjectCache" where
  "CompileGeometryShaderForUid V uid it s =
     (let s = s\<lparr>compile_attempts := compile_attempts s @ [Inr (Inl uid)]\<rparr>;
          (spv, w) = CompileGeometryShader V (world s) uid;
          s = s\<lparr>world := w\<rparr>;
          (m, s) =
            (case spv of
               None \<Rightarrow> (VK_NULL_HANDLE, s)
             | Some spv \<Rightarrow>
                 (let (m, w) = CreateShaderModule V (world s) spv;
                      s = s\<lparr>world := w\<rparr>
                  in (m, if m \<noteq> VK_NULL_HANDLE
                         then s\<lparr>m_gs_cache := append_disk uid spv (m_gs_cache s)\<rparr>
                         else s)))
      in (it\<lparr>compiled := True, shader_module := m\<rparr>, s))"

definition CompilePixelShaderForUid ::
  "('v, 'g, 'p, 'w) Vulkan \<Rightarrow> 'p \<Rightarrow> vkShaderItem \<Rightarrow> ('v, 'g, 'p, 'w) ObjectCache
     \<Rightarrow> vkShaderItem \<times> ('v, 'g, 'p, 'w) ObjectCache" where
  "CompilePixelShaderForUid V uid it s =
     (let s = s\<lparr>compile_attempts := compile_attempts s @ [Inr (Inr uid)]\<rparr>;
          (spv, w) = CompileFragmentShader V (world s) uid;
          s = s\<lparr>world := w\<rparr>;
          (m, s) =
            (case spv of
               None \<Rightarrow> (VK_NULL_HANDLE, s)
             | Some spv \<Rightarrow>
                 (let (m, w) = CreateShaderModule V (world s) spv;
                      s = s\<lparr>world := w\<rparr>
                  in (m, if m \<noteq> VK_NULL_HANDLE
                         then s\<lparr>m_ps_cache := append_disk uid spv (m_ps_cache s),
                                stats := (stats s)\<lparr>
                                  numPixelShadersCreated := numPixelShadersCreated (stats s) + 1,
                                  numPixelShadersAlive := numPixelShadersAlive (stats s) + 1\<rparr>\<rparr>
                         else s)))
      in (it\<lparr>compiled := True, shader_module := m\<rparr>, s))"

text \<open>
  The condition of the claim about the disk cache, in its own words: the binary, when both
  the compilation and the creation of the module succeed.
\<close>

definition both_succeed ::
  "('w \<Rightarrow> 'u \<Rightarrow> SPIRVCodeVector option \<times> 'w) \<Rightarrow> ('w \<Rightarrow> SPIRVCodeVector \<Rightarrow> VkShaderModule \<times> 'w)
     \<Rightarrow> 'w \<Rightarrow> 'u \<Rightarrow> SPIRVCodeVector option" where
  "both_succeed compile create w uid =
     (case fst (compile w uid) of
        None \<Rightarrow> None
      | Some spv \<Rightarrow>
          if fst (create (snd (compile w uid)) spv) \<noteq> VK_NULL_HANDLE then Some spv else None)"

text \<open>
  The module a compilation yields, in the words of the claim about lookups: what
  \<open>CreateShaderModule\<close> returns for the compiled binary, and the null handle when the
  compiler fails.
\<close>

definition module_for ::
  "('w \<Rightarrow> 'u \<Rightarrow> SPIRVCodeVector option \<times> 'w) \<Rightarrow> ('w \<Rightarrow> SPIRVCodeVector \<Rightarrow> VkShaderModule \<times> 'w)
     \<Rightarrow> 'w \<Rightarrow> 'u \<Rightarrow> VkShaderModule" where
  "module_for compile create w uid =
     (case fst (compile w uid) of
        None \<Rightarrow> VK_NULL_HANDLE
      | Some spv \<Rightarrow> fst (create (snd (compile w uid)) spv))"

subsection \<open>Looking a shader up by UID\<close>

text \<open>
  Modelled from the spec: \<open>ObjectUsageProfiler::GetOrAdd\<close> (Common/ObjectUsageProfiler.h)
  is not among the sources. It returns the item stored under the key, adding a
  default-constructed item (flag clear, not compiled, null module) when there is none.
\<close>

definition default_item :: vkShaderItem where
  "default_item = \<lparr>initialized = False, compiled = False, shader_module = VK_NULL_HANDLE\<rparr>"

definition GetOrAdd :: "('u \<rightharpoonup> vkShaderItem) \<Rightarrow> 'u \<Rightarrow> vkShaderItem \<times> ('u \<rightharpoonup> vkShaderItem)" where
  "GetOrAdd m uid =
     (case m uid of
        Some it \<Rightarrow> (it, m)
      | None \<Rightarrow> (default_item, m(uid \<mapsto> default_item)))"

definition put_item :: "'u \<Rightarrow> vkShaderItem \<Rightarrow> 'u ShaderCache \<Rightarrow> 'u ShaderCache" where
  "put_item uid it c = c\<lparr>shader_map := (shader_map c)(uid \<mapsto> it)\<rparr>"

text \<open>
  \<open>it\<close> is a reference to the item in the map: \<open>test_and_set\<close> sets its flag, and the
  compile function writes \<open>compiled\<close> and \<open>module\<close> through it.
\<close>

definition GetVertexShaderForUid ::
  "('v, 'g, 'p, 'w) Vulkan \<Rightarrow> 'v \<Rightarrow> ('v, 'g, 'p, 'w) ObjectCache
     \<Rightarrow> VkShaderModule \<times> ('v, 'g, 'p, 'w) ObjectCache" where
  "GetVertexShaderForUid V uid s =
     (let (it, m) = GetOrAdd (shader_map (m_vs_cache s)) uid;
          was_set = initialized it;
          it = it\<lparr>initialized := True\<rparr>;
          s = s\<lparr>m_vs_cache := (m_vs_cache s)\<lparr>shader_map := m(uid \<mapsto> it)\<rparr>\<rparr>
      in if was_set then (shader_module it, s)
         else (let (it, s) = CompileVertexShaderForUid V uid it s;
                   s = s\<lparr>m_vs_cache := put_item uid it (m_vs_cache s)\<rparr>
               in (shader_module it, s)))"

text \<open>
  The geometry variant first asserts that the device supports geometry shaders; the
  assertion has no effect on the state.
\<close>

definition GetGeometryShaderForUid ::
  "('v, 'g, 'p, 'w) Vulkan \<Rightarrow> 'g \<Rightarrow> ('v, 'g, 'p, 'w) ObjectCache
     \<Rightarrow> VkShaderModule \<times> ('v, 'g, 'p, 'w) ObjectCache" where
  "GetGeometryShaderForUid V uid s =
     (let (it, m) = GetOrAdd (shader_map (m_gs_cache s)) uid;
          was_set = initialized it;
          it = it\<lparr>initialized := True\<rparr>;
          s = s\<lparr>m_gs_cache := (m_gs_cache s)\<lparr>shader_map := m(uid \<mapsto> it)\<rparr>\<rparr>
      in if was_set then (shader_module it, s)
         else (let (it, s) = CompileGeometryShaderForUid V uid it s;
                   s = s\<lparr>m_gs_cache := put_item uid it (m_gs_cache s)\<rparr>
               in (shader_module it, s)))"

definition GetPixelShaderForUid ::
  "('v, 'g, 'p, 'w) Vulkan \<Rightarrow> 'p \<Rightarrow> ('v, 'g, 'p, 'w) ObjectCache
     \<Rightarrow> VkShaderModule \<times> ('v, 'g, 'p, 'w) ObjectCache" where
  "GetPixelShaderForUid V uid s =
     (let (it, m) = GetOrAdd (shader_map (m_ps_cache s)) uid;
          was_set = initialized it;
          it = it\<lparr>initialized := True\<rparr>;
          s = s\<lparr>m_ps_cache := (m_ps_cache s)\<lparr>shader_map := m(uid \<mapsto> it)\<rparr>\<rparr>
      in if was_set then (shader_module it, s)
         else (let (it, s) = CompilePixelShaderForUid V uid it s;
                   s = s\<lparr>m_ps_cache := put_item uid it (m_ps_cache s)\<rparr>
               in (shader_module it, s)))"

subsection \<open>Sequences of calls\<close>

datatype ('v, 'g, 'p) oc_call =
    Call_GetVertexShaderForUid 'v
  | Call_GetGeometryShaderForUid 'g
  | Call_GetPixelShaderForUid 'p
  | Call_GetPipeline PipelineInfo

fun exec_call ::
  "('v, 'g, 'p, 'w) Vulkan \<Rightarrow> ('v, 'g, 'p) oc_call \<Rightarrow> ('v, 'g, 'p, 'w) ObjectCache
     \<Rightarrow> ('v, 'g, 'p, 'w) ObjectCache" where
  "exec_call V (Call_GetVertexShaderForUid u) s = snd (GetVertexShaderForUid V u s)"
| "exec_call V (Call_GetGeometryShaderForUid u) s = snd (GetGeometryShaderForUid V u s)"
| "exec_call V (Call_GetPixelShaderForUid u) s = snd (GetPixelShaderForUid V u s)"
| "exec_call V (Call_GetPipeline info) s = snd (GetPipeline V info s)"

fun exec_calls ::
  "('v, 'g, 'p, 'w) Vulkan \<Rightarrow> ('v, 'g, 'p) oc_call list \<Rightarrow> ('v, 'g, 'p, 'w) ObjectCache
     \<Rightarrow> ('v, 'g, 'p, 'w) ObjectCache" where
  "exec_calls V [] s = s"
| "exec_calls V (c # cs) s = exec_calls V cs (exec_call V c s)"

text \<open>Whether a compilation has been attempted for the UID, by the flag of its item.\<close>

definition is_initialized :: "'u ShaderCache \<Rightarrow> 'u \<Rightarrow> bool" where
  "is_initialized c uid = (case shader_map c uid of None \<Rightarrow> False | Some it \<Rightarrow> initialized it)"

definition cached_module :: "'u ShaderCache \<Rightarrow> 'u \<Rightarrow> VkShaderModule option" where
  "cached_module c uid = (case shader_map c uid of None \<Rightarrow> None | Some it \<Rightarrow> Some (shader_module it))"

text \<open>
  A sample world for evaluation: a counter. Every driver call increments it; a created
  object gets the new count as its handle, so no two creations return the same handle.
  The compiler fails on UID 0, and module creation fails on an empty binary.
\<close>

definition counting_vulkan :: "(nat, nat, nat, nat) Vulkan" where
  "counting_vulkan =
     \<lparr>CompileVertexShader = (\<lambda>w u. (if u = 0 then None else Some [word_of_nat u], Suc w)),
      CompileGeometryShader = (\<lambda>w u. (if u = 0 then None else Some [], Suc w)),
      CompileFragmentShader = (\<lambda>w u. (if u = 0 then None else Some [word_of_nat u], Suc w)),
      CreateShaderModule = (\<lambda>w spv. (if spv = [] then 0 else Suc w, Suc w)),
      vkCreateGraphicsPipelines = (\<lambda>w ci. ((VK_SUCCESS, Suc w), Suc w))\<rparr>"

definition empty_cache :: "'u ShaderCache" where
  "empty_cache = \<lparr>shader_map = Map.empty, disk_cache = []\<rparr>"

definition oc_init :: "(nat, nat, nat, nat) ObjectCache" where
  "oc_init = \<lparr>m_pipeline_objects = Map.empty, m_vs_cache = empty_cache,
     m_gs_cache = empty_cache, m_ps_cache = empty_cache,
     stats = \<lparr>numVertexShadersCreated = 0, numVertexShadersAlive = 0,
               numPixelShadersCreated = 0, numPixelShadersAlive = 0\<rparr>,
     world = 0, vulkan_errors = [], compile_attempts = []\<rparr>"

definition info0 :: PipelineInfo where
  "info0 = \<lparr>vertex_format = 0, pipeline_layout = 1, vs = 2, gs = 0, ps = 3, render_pass = 4,
     rasterization_state = 0, depth_stencil_state = 0, blend_state = 0,
     primitive_topology = 3\<rparr>"

section \<open>OGL TextureCache: LoadLut\<close>

text \<open>
  The members \<open>m_last_*\<close> of \<open>OGL::TextureCache\<close>, the two statics \<open>LoadLut\<close> writes, and
  the calls of \<open>s_palette_stream_buffer->Stream(size, addr)\<close> made so far. An address is a
  number; the members start at zero.
\<close>

record LutState =
  m_last_addr :: nat
  m_last_size :: u32
  m_last_hash :: u64
  m_last_lutFmt :: u32
  s_last_TlutFormat :: u32
  s_last_pallet_Buffer :: u32
  streamed :: "(u32 \<times> nat) list"

text \<open>
  What \<open>LoadLut\<close> reads from outside: \<open>GetHash64\<close> of the bytes now at an address (with
  the configured number of colour samples), whether the backend supports palette
  conversion, and the offset the stream buffer returns for an upload, given the uploads
  before it.
\<close>

record LutEnv =
  GetHash64 :: "nat \<Rightarrow> u32 \<Rightarrow> u64"
  bSupportsPaletteConversion :: bool
  Stream :: "(u32 \<times> nat) list \<Rightarrow> u32 \<Rightarrow> nat \<Rightarrow> u32"

definition lut_record :: "LutEnv \<Rightarrow> u32 \<Rightarrow> nat \<Rightarrow> u32 \<Rightarrow> LutState \<Rightarrow> LutState" where
  "lut_record e lutFmt addr size' s =
     (let s = s\<lparr>m_last_lutFmt := lutFmt, m_last_addr := addr, m_last_size := size'\<rparr>
      in if bSupportsPaletteConversion e
         then s\<lparr>s_last_TlutFormat := lutFmt,
                s_last_pallet_Buffer := Stream e (streamed s) size' addr,
                streamed := streamed s @ [(size', addr)]\<rparr>
         else s)"

definition LoadLut :: "LutEnv \<Rightarrow> u32 \<Rightarrow> nat \<Rightarrow> u32 \<Rightarrow> LutState \<Rightarrow> LutState" where
  "LoadLut e lutFmt addr size' s =
     (if lutFmt = m_last_lutFmt s \<and> addr = m_last_addr s \<and> size' = m_last_size s
         \<and> m_last_hash s \<noteq> 0
      then (let hash = GetHash64 e addr size'
            in if hash = m_last_hash s then s
               else lut_record e lutFmt addr size' (s\<lparr>m_last_hash := hash\<rparr>))
      else lut_record e lutFmt addr size' (s\<lparr>m_last_hash := GetHash64 e addr size'\<rparr>))"

text \<open>The condition under which the claim about \<open>LoadLut\<close> expects no upload.\<close>

definition same_as_last :: "LutEnv \<Rightarrow> u32 \<Rightarrow> nat \<Rightarrow> u32 \<Rightarrow> LutState \<Rightarrow> bool" where
  "same_as_last e lutFmt addr size' s \<longleftrightarrow>
     lutFmt = m_last_lutFmt s \<and> addr = m_last_addr s \<and> size' = m_last_size s
     \<and> GetHash64 e addr size' = m_last_hash s"

text \<open>Sample values: a freshly constructed cache, and memory whose palette hashes to 0.\<close>

definition lut_init :: LutState where
  "lut_init = \<lparr>m_last_addr = 0, m_last_size = 0, m_last_hash = 0, m_last_lutFmt = 0,
     s_last_TlutFormat = 0, s_last_pallet_Buffer = 0, streamed = []\<rparr>"

definition lut_env :: "u64 \<Rightarrow> LutEnv" where
  "lut_env h = \<lparr>GetHash64 = (\<lambda>_ _. h), bSupportsPaletteConversion = True,
     Stream = (\<lambda>ups sz _. sum_list (map fst ups))\<rparr>"

section \<open>TextureCacheBase: eviction by frame age\<close>

text \<open>
  \<open>TextureCacheParams\<close> and the members of \<open>TCacheEntryBase\<close> that eviction can depend
  on, as TextureCacheBase.h declares them. \<open>frameCount\<close> is the frame in which the entry
  was last used.
\<close>

definition FRAMECOUNT_INVALID :: int where
  "FRAMECOUNT_INVALID = 0"

definition TEXTURE_KILL_THRESHOLD :: int where
  "TEXTURE_KILL_THRESHOLD = 120"

record TCacheEntryBase =
  config :: TCacheEntryConfig
  is_efb_copy :: bool
  size_in_bytes :: u32
  native_size_in_bytes :: u32
  frameCount :: int

text \<open>\<open>textures_by_address\<close> is a multimap: a list of (key, entry) pairs in key order.\<close>

type_synonym TexCache = "(u64 \<times> TCacheEntryBase) list"

text \<open>
  Modelled from the spec: the body of \<open>TextureCacheBase::Cleanup\<close> (TextureCacheBase.cpp)
  is not among the sources; only its declaration is, with the comment "Removes textures
  which aren't used for more than TEXTURE_KILL_THRESHOLD frames, frameCount is the current
  frame number". An entry is stale when the current frame is more than the threshold past
  the frame of its last use; \<open>Cleanup\<close> removes the stale entries and keeps the others.
\<close>

definition stale :: "int \<Rightarrow> TCacheEntryBase \<Rightarrow> bool" where
  "stale f e \<longleftrightarrow> TEXTURE_KILL_THRESHOLD < f - frameCount e"

definition Cleanup :: "int \<Rightarrow> TexCache \<Rightarrow> TexCache" where
  "Cleanup f textures_by_address = filter (\<lambda>(k, e). \<not> stale f e) textures_by_address"

text \<open>Sample cache: three entries last used in frames 10, 100 and 200.\<close>

definition entry_used_in :: "int \<Rightarrow> TCacheEntryBase" where
  "entry_used_in n = \<lparr>config = cfgA, is_efb_copy = False, size_in_bytes = 4096,
     native_size_in_bytes = 4096, frameCount = n\<rparr>"

definition sample_cache :: TexCache where
  "sample_cache = [(0x1000, entry_used_in 10), (0x2000, entry_used_in 100),
     (0x3000, entry_used_in 200)]"

section \<open>Vulkan StateTracker: deferred binding\<close>






















section \<open>Properties of TCacheEntryConfig\<close>

subsection \<open>Reading the fields back from the hash\<close>

lemma small_bit:
  fixes w :: "'a::len word"
  assumes "w < 2 ^ k" and "bit w n"
  shows "n < k"
proof -
  have e: "w AND mask k = w" using assms(1) by (rule less_mask_eq)
  from assms(2) have "bit (w AND mask k) n" by (simp only: e)
  then show ?thesis by (simp add: bit_and_iff bit_mask_iff)
qed

lemma high_bit_clear:
  fixes w :: "'a::len word"
  assumes "w < 2 ^ k" and "k \<le> n"
  shows "\<not> bit w n"
proof
  assume "bit w n"
  with assms(1) have "n < k" by (rule small_bit)
  with assms(2) show False by simp
qed

lemmas Hasher_bit_simps =
  Hasher_def bit_or_iff bit_push_bit_iff bit_word_ucast_iff bit_of_bool_iff

lemma Hasher_width:
  assumes "in_range c"
  shows "bit (width c) n \<longleftrightarrow> n < 16 \<and> bit (Hasher c) n"
proof (cases "n < 16")
  case True
  then show ?thesis by (simp add: Hasher_bit_simps)
next
  case False
  from assms have "width c < 2 ^ 16" by (simp add: in_range_def)
  then have "\<not> bit (width c) n" by (rule high_bit_clear) (use False in simp)
  with False show ?thesis by simp
qed

lemma Hasher_height:
  assumes "in_range c"
  shows "bit (height c) n \<longleftrightarrow> n < 16 \<and> bit (Hasher c) (16 + n)"
proof (cases "n < 16")
  case True
  from assms have "width c < 2 ^ 16" by (simp add: in_range_def)
  then have "\<not> bit (width c) (16 + n)" by (rule high_bit_clear) simp
  with True show ?thesis by (simp add: Hasher_bit_simps)
next
  case False
  from assms have "height c < 2 ^ 16" by (simp add: in_range_def)
  then have "\<not> bit (height c) n" by (rule high_bit_clear) (use False in simp)
  with False show ?thesis by simp
qed

lemma Hasher_levels:
  assumes "in_range c"
  shows "bit (levels c) n \<longleftrightarrow> n < 8 \<and> bit (Hasher c) (32 + n)"
proof (cases "n < 8")
  case True
  from assms have "height c < 2 ^ 16" by (simp add: in_range_def)
  then have "\<not> bit (height c) (16 + n)" by (rule high_bit_clear) simp
  with True show ?thesis by (simp add: Hasher_bit_simps)
next
  case False
  from assms have "levels c < 2 ^ 8" by (simp add: in_range_def)
  then have "\<not> bit (levels c) n" by (rule high_bit_clear) (use False in simp)
  with False show ?thesis by simp
qed

lemma Hasher_layers:
  assumes "in_range c"
  shows "bit (layers c) n \<longleftrightarrow> n < 8 \<and> bit (Hasher c) (40 + n)"
proof (cases "n < 8")
  case True
  from assms have r: "height c < 2 ^ 16" "levels c < 2 ^ 8" by (simp_all add: in_range_def)
  have "\<not> bit (height c) (24 + n)" by (rule high_bit_clear [OF r(1)]) simp
  moreover have "\<not> bit (levels c) (8 + n)" by (rule high_bit_clear [OF r(2)]) simp
  ultimately show ?thesis using True by (simp add: Hasher_bit_simps)
next
  case False
  from assms have "layers c < 2 ^ 8" by (simp add: in_range_def)
  then have "\<not> bit (layers c) n" by (rule high_bit_clear) (use False in simp)
  with False show ?thesis by simp
qed

lemma Hasher_pcformat:
  assumes "in_range c"
  shows "bit (pcformat c) n \<longleftrightarrow> n < 8 \<and> bit (Hasher c) (48 + n)"
proof (cases "n < 8")
  case True
  from assms have r: "layers c < 2 ^ 8" "levels c < 2 ^ 8" by (simp_all add: in_range_def)
  have "\<not> bit (layers c) (8 + n)" by (rule high_bit_clear [OF r(1)]) simp
  moreover have "\<not> bit (levels c) (16 + n)" by (rule high_bit_clear [OF r(2)]) simp
  ultimately show ?thesis using True by (simp add: Hasher_bit_simps)
next
  case False
  from assms have "pcformat c < 2 ^ 8" by (simp add: in_range_def)
  then have "\<not> bit (pcformat c) n" by (rule high_bit_clear) (use False in simp)
  with False show ?thesis by simp
qed

lemma Hasher_flags:
  assumes "in_range c"
  shows "rendertarget c \<longleftrightarrow> bit (Hasher c) 56"
    and "materialmap c \<longleftrightarrow> bit (Hasher c) 57"
proof -
  from assms have r: "pcformat c < 2 ^ 8" "layers c < 2 ^ 8" "levels c < 2 ^ 8"
    by (simp_all add: in_range_def)
  have p: "\<not> bit (pcformat c) 8" "\<not> bit (pcformat c) 9"
    by (rule high_bit_clear [OF r(1)], simp)+
  have y: "\<not> bit (layers c) 16" "\<not> bit (layers c) 17"
    by (rule high_bit_clear [OF r(2)], simp)+
  have l: "\<not> bit (levels c) 24" "\<not> bit (levels c) 25"
    by (rule high_bit_clear [OF r(3)], simp)+
  show "rendertarget c \<longleftrightarrow> bit (Hasher c) 56"
    using p y l by (simp add: Hasher_bit_simps)
  show "materialmap c \<longleftrightarrow> bit (Hasher c) 57"
    using p y l by (simp add: Hasher_bit_simps)
qed

text \<open>\<open>operator==\<close> on configs is equality of the records.\<close>

lemma config_eq_iff: "config_eq c1 c2 \<longleftrightarrow> c1 = (c2 :: TCacheEntryConfig)"
  by (cases c1, cases c2) (auto simp add: config_eq_def)

text \<open>
  Without the range condition the fields overlap: a width of \<open>0x10000\<close> hashes like a
  height of 1.
\<close>

lemma Hasher_collision_out_of_range:
  "Hasher \<lparr>width = 0x10000, height = 0, levels = 1, layers = 1, rendertarget = False,
       materialmap = False, pcformat = 0\<rparr>
   = Hasher \<lparr>width = 0, height = 1, levels = 1, layers = 1, rendertarget = False,
       materialmap = False, pcformat = 0\<rparr>"
  by (simp add: Hasher_def)

text \<open>
  Claim C9. \<open>TCacheEntryConfig::Hasher\<close> is injective on in-range configs: two configs
  whose width and height are below \<open>2^16\<close> and whose levels, layers and pcformat are
  below \<open>2^8\<close>, and that have the same hash, are equal under \<open>operator==\<close>.
\<close>

theorem Hasher_injective:
  assumes "in_range c1" and "in_range c2" and "Hasher c1 = Hasher c2"
  shows "config_eq c1 c2"
proof -
  have "width c1 = width c2"
    by (rule bit_word_eqI)
      (simp add: Hasher_width [OF assms(1)] Hasher_width [OF assms(2)] assms(3))
  moreover have "height c1 = height c2"
    by (rule bit_word_eqI)
      (simp add: Hasher_height [OF assms(1)] Hasher_height [OF assms(2)] assms(3))
  moreover have "levels c1 = levels c2"
    by (rule bit_word_eqI)
      (simp add: Hasher_levels [OF assms(1)] Hasher_levels [OF assms(2)] assms(3))
  moreover have "layers c1 = layers c2"
    by (rule bit_word_eqI)
      (simp add: Hasher_layers [OF assms(1)] Hasher_layers [OF assms(2)] assms(3))
  moreover have "pcformat c1 = pcformat c2"
    by (rule bit_word_eqI)
      (simp add: Hasher_pcformat [OF assms(1)] Hasher_pcformat [OF assms(2)] assms(3))
  moreover have "rendertarget c1 = rendertarget c2"
    by (simp add: Hasher_flags(1) [OF assms(1)] Hasher_flags(1) [OF assms(2)] assms(3))
  moreover have "materialmap c1 = materialmap c2"
    by (simp add: Hasher_flags(2) [OF assms(1)] Hasher_flags(2) [OF assms(2)] assms(3))
  ultimately show ?thesis by (simp add: config_eq_def)
qed

theorem Hasher_injective_witness:
  "in_range cfgA \<and> Hasher cfgA = 0x0102010101E00280 \<and> config_eq cfgA cfgA"
proof -
  have r: "in_range cfgA" by (simp add: in_range_def cfgA_def)
  have h: "Hasher cfgA = Hasher cfgA" by (rule refl)
  have v: "Hasher cfgA = 0x0102010101E00280" by (simp add: Hasher_def cfgA_def)
  from r v Hasher_injective [OF r r h] show ?thesis by blast
qed

text \<open>
  Claim C10. For every configuration, \<open>GetSizeInBytes()\<close> returns at least 4096, whatever
  the pixel format (named by an enumerator or not) and also for zero width or height.
\<close>

theorem GetSizeInBytes_at_least_4096: "4096 \<le> GetSizeInBytes fmt c"
  by (simp add: GetSizeInBytes_def Let_def)

section \<open>Properties of VertexShaderManager\<close>

subsection \<open>What each step of SetConstants does to each static variable\<close>

lemma set_phong_rim_fields:
  shows "bProjectionChanged (set_phong_rim e s) = bProjectionChanged s"
    and "bViewportChanged (set_phong_rim e s) = bViewportChanged s"
    and "s_materials_changed (set_phong_rim e s) = s_materials_changed s"
    and "s_tex_matrices_changed (set_phong_rim e s) = s_tex_matrices_changed s"
    and "s_transform_matrices_changed (set_phong_rim e s) = s_transform_matrices_changed s"
    and "s_normal_matrices_changed (set_phong_rim e s) = s_normal_matrices_changed s"
    and "nPostTransformMatricesChanged (set_phong_rim e s) = nPostTransformMatricesChanged s"
    and "s_lights_changed (set_phong_rim e s) = s_lights_changed s"
  by (auto simp add: set_phong_rim_def emit_def Let_def)

lemma set_phong_bump_fields:
  shows "bProjectionChanged (set_phong_bump e s) = bProjectionChanged s"
    and "bViewportChanged (set_phong_bump e s) = bViewportChanged s"
    and "s_materials_changed (set_phong_bump e s) = s_materials_changed s"
    and "s_tex_matrices_changed (set_phong_bump e s) = s_tex_matrices_changed s"
    and "s_transform_matrices_changed (set_phong_bump e s) = s_transform_matrices_changed s"
    and "s_normal_matrices_changed (set_phong_bump e s) = s_normal_matrices_changed s"
    and "nPostTransformMatricesChanged (set_phong_bump e s) = nPostTransformMatricesChanged s"
    and "s_lights_changed (set_phong_bump e s) = s_lights_changed s"
  by (auto simp add: set_phong_bump_def emit_def Let_def)

lemma upload_transform_fields:
  shows "bProjectionChanged (upload_transform s) = bProjectionChanged s"
    and "bViewportChanged (upload_transform s) = bViewportChanged s"
    and "s_materials_changed (upload_transform s) = s_materials_changed s"
    and "s_tex_matrices_changed (upload_transform s) = s_tex_matrices_changed s"
    and "s_transform_matrices_changed (upload_transform s) =
       (if 0 \<le> fst (s_transform_matrices_changed s) then (-1, -1)
        else s_transform_matrices_changed s)"
    and "s_normal_matrices_changed (upload_transform s) = s_normal_matrices_changed s"
    and "nPostTransformMatricesChanged (upload_transform s) = nPostTransformMatricesChanged s"
    and "s_lights_changed (upload_transform s) = s_lights_changed s"
    and "s_lights_phong (upload_transform s) = s_lights_phong s"
  by (auto simp add: upload_transform_def emit_def Let_def)

lemma upload_normal_fields:
  shows "bProjectionChanged (upload_normal s) = bProjectionChanged s"
    and "bViewportChanged (upload_normal s) = bViewportChanged s"
    and "s_materials_changed (upload_normal s) = s_materials_changed s"
    and "s_tex_matrices_changed (upload_normal s) = s_tex_matrices_changed s"
    and "s_transform_matrices_changed (upload_normal s) = s_transform_matrices_changed s"
    and "s_normal_matrices_changed (upload_normal s) =
       (if 0 \<le> fst (s_normal_matrices_changed s) then (-1, -1)
        else s_normal_matrices_changed s)"
    and "nPostTransformMatricesChanged (upload_normal s) = nPostTransformMatricesChanged s"
    and "s_lights_changed (upload_normal s) = s_lights_changed s"
    and "s_lights_phong (upload_normal s) = s_lights_phong s"
  by (auto simp add: upload_normal_def emit_def Let_def)

lemma upload_post_fields:
  shows "bProjectionChanged (upload_post s) = bProjectionChanged s"
    and "bViewportChanged (upload_post s) = bViewportChanged s"
    and "s_materials_changed (upload_post s) = s_materials_changed s"
    and "s_tex_matrices_changed (upload_post s) = s_tex_matrices_changed s"
    and "s_transform_matrices_changed (upload_post s) = s_transform_matrices_changed s"
    and "s_normal_matrices_changed (upload_post s) = s_normal_matrices_changed s"
    and "nPostTransformMatricesChanged (upload_post s) =
       (if 0 \<le> fst (nPostTransformMatricesChanged s) then (-1, -1)
        else nPostTransformMatricesChanged s)"
    and "s_lights_changed (upload_post s) = s_lights_changed s"
    and "s_lights_phong (upload_post s) = s_lights_phong s"
  by (auto simp add: upload_post_def emit_def Let_def)

lemma upload_lights_fields:
  shows "bProjectionChanged (upload_lights e s) = bProjectionChanged s"
    and "bViewportChanged (upload_lights e s) = bViewportChanged s"
    and "s_materials_changed (upload_lights e s) = s_materials_changed s"
    and "s_tex_matrices_changed (upload_lights e s) = s_tex_matrices_changed s"
    and "s_transform_matrices_changed (upload_lights e s) = s_transform_matrices_changed s"
    and "s_normal_matrices_changed (upload_lights e s) = s_normal_matrices_changed s"
    and "nPostTransformMatricesChanged (upload_lights e s) = nPostTransformMatricesChanged s"
    and "s_lights_changed (upload_lights e s) =
       (if 0 \<le> fst (s_lights_changed s) then (-1, -1) else s_lights_changed s)"
    and "s_lights_phong (upload_lights e s) = s_lights_phong s"
  by (auto simp add: upload_lights_def emit_def Let_def)

lemma upload_materials_fields:
  shows "bProjectionChanged (upload_materials s) = bProjectionChanged s"
    and "bViewportChanged (upload_materials s) = bViewportChanged s"
    and "s_materials_changed (upload_materials s) = 0"
    and "s_tex_matrices_changed (upload_materials s) = s_tex_matrices_changed s"
    and "s_transform_matrices_changed (upload_materials s) = s_transform_matrices_changed s"
    and "s_normal_matrices_changed (upload_materials s) = s_normal_matrices_changed s"
    and "nPostTransformMatricesChanged (upload_materials s) = nPostTransformMatricesChanged s"
    and "s_lights_changed (upload_materials s) = s_lights_changed s"
    and "s_lights_phong (upload_materials s) = s_lights_phong s"
  by (auto simp add: upload_materials_def emit_def Let_def)

lemma upload_tex_a_fields:
  shows "bProjectionChanged (upload_tex_a e s) = bProjectionChanged s"
    and "bViewportChanged (upload_tex_a e s) = bViewportChanged s"
    and "s_materials_changed (upload_tex_a e s) = s_materials_changed s"
    and "s_tex_matrices_changed (upload_tex_a e s) = (False, snd (s_tex_matrices_changed s))"
    and "s_transform_matrices_changed (upload_tex_a e s) = s_transform_matrices_changed s"
    and "s_normal_matrices_changed (upload_tex_a e s) = s_normal_matrices_changed s"
    and "nPostTransformMatricesChanged (upload_tex_a e s) = nPostTransformMatricesChanged s"
    and "s_lights_changed (upload_tex_a e s) = s_lights_changed s"
    and "s_lights_phong (upload_tex_a e s) = s_lights_phong s"
  by (auto simp add: upload_tex_a_def emit_def prod_eq_iff)

lemma upload_tex_b_fields:
  shows "bProjectionChanged (upload_tex_b e s) = bProjectionChanged s"
    and "bViewportChanged (upload_tex_b e s) = bViewportChanged s"
    and "s_materials_changed (upload_tex_b e s) = s_materials_changed s"
    and "s_tex_matrices_changed (upload_tex_b e s) = (fst (s_tex_matrices_changed s), False)"
    and "s_transform_matrices_changed (upload_tex_b e s) = s_transform_matrices_changed s"
    and "s_normal_matrices_changed (upload_tex_b e s) = s_normal_matrices_changed s"
    and "nPostTransformMatricesChanged (upload_tex_b e s) = nPostTransformMatricesChanged s"
    and "s_lights_changed (upload_tex_b e s) = s_lights_changed s"
    and "s_lights_phong (upload_tex_b e s) = s_lights_phong s"
  by (auto simp add: upload_tex_b_def emit_def prod_eq_iff)

lemma update_viewport_fields:
  shows "bProjectionChanged (update_viewport e s) =
       (bProjectionChanged s \<or> bViewportChanged s \<and> \<not> bSupportsOversizedViewports e)"
    and "\<not> bViewportChanged (update_viewport e s)"
    and "s_materials_changed (update_viewport e s) = s_materials_changed s"
    and "s_tex_matrices_changed (update_viewport e s) = s_tex_matrices_changed s"
    and "s_transform_matrices_changed (update_viewport e s) = s_transform_matrices_changed s"
    and "s_normal_matrices_changed (update_viewport e s) = s_normal_matrices_changed s"
    and "nPostTransformMatricesChanged (update_viewport e s) = nPostTransformMatricesChanged s"
    and "s_lights_changed (update_viewport e s) = s_lights_changed s"
    and "s_lights_phong (update_viewport e s) = s_lights_phong s"
  by (auto simp add: update_viewport_def emit_def Let_def)

lemma update_projection_fields:
  shows "\<not> bProjectionChanged (update_projection e s)"
    and "bViewportChanged (update_projection e s) = bViewportChanged s"
    and "s_materials_changed (update_projection e s) = s_materials_changed s"
    and "s_tex_matrices_changed (update_projection e s) = s_tex_matrices_changed s"
    and "s_transform_matrices_changed (update_projection e s) = s_transform_matrices_changed s"
    and "s_normal_matrices_changed (update_projection e s) = s_normal_matrices_changed s"
    and "nPostTransformMatricesChanged (update_projection e s) = nPostTransformMatricesChanged s"
    and "s_lights_changed (update_projection e s) = s_lights_changed s"
    and "s_lights_phong (update_projection e s) = s_lights_phong s"
  by (auto simp add: update_projection_def emit_def Let_def)

lemma set_phong_rim_phong:
  shows "s_lights_phong (set_phong_rim e s) 0 = iRimBase e"
    and "s_lights_phong (set_phong_rim e s) 1 = iRimPower e"
    and "s_lights_phong (set_phong_rim e s) 2 = iRimIntesity e"
    and "s_lights_phong (set_phong_rim e s) 3 = iSpecularMultiplier e"
    and "s_lights_phong (set_phong_rim e s) 4 = s_lights_phong s 4"
    and "s_lights_phong (set_phong_rim e s) 5 = s_lights_phong s 5"
    and "s_lights_phong (set_phong_rim e s) 6 = s_lights_phong s 6"
    and "s_lights_phong (set_phong_rim e s) 7 = s_lights_phong s 7"
  by (simp_all add: set_phong_rim_def emit_def)

lemma set_phong_bump_phong:
  shows "s_lights_phong (set_phong_bump e s) 0 = s_lights_phong s 0"
    and "s_lights_phong (set_phong_bump e s) 1 = s_lights_phong s 1"
    and "s_lights_phong (set_phong_bump e s) 2 = s_lights_phong s 2"
    and "s_lights_phong (set_phong_bump e s) 3 = s_lights_phong s 3"
    and "s_lights_phong (set_phong_bump e s) 4 = iSimBumpStrength e"
    and "s_lights_phong (set_phong_bump e s) 5 = iSimBumpThreshold e"
    and "s_lights_phong (set_phong_bump e s) 6 = iSimBumpDetailBlend e"
    and "s_lights_phong (set_phong_bump e s) 7 = iSimBumpDetailFrequency e"
  by (simp_all add: set_phong_bump_def emit_def)

lemmas SetConstants_fields =
  set_phong_rim_fields set_phong_bump_fields upload_transform_fields upload_normal_fields
  upload_post_fields upload_lights_fields upload_materials_fields upload_tex_a_fields
  upload_tex_b_fields update_viewport_fields update_projection_fields
  set_phong_rim_phong set_phong_bump_phong

subsection \<open>The dirty markers after SetConstants\<close>

lemma SetConstants_ranges:
  shows "s_transform_matrices_changed (SetConstants e s) =
           (if 0 \<le> fst (s_transform_matrices_changed s) then (-1, -1)
            else s_transform_matrices_changed s)"
    and "s_normal_matrices_changed (SetConstants e s) =
           (if 0 \<le> fst (s_normal_matrices_changed s) then (-1, -1)
            else s_normal_matrices_changed s)"
    and "nPostTransformMatricesChanged (SetConstants e s) =
           (if 0 \<le> fst (nPostTransformMatricesChanged s) then (-1, -1)
            else nPostTransformMatricesChanged s)"
    and "s_lights_changed (SetConstants e s) =
           (if 0 \<le> fst (s_lights_changed s) then (-1, -1) else s_lights_changed s)"
  by (simp_all only: SetConstants_def SetConstants_fields)

lemma SetConstants_flags:
  shows "s_materials_changed (SetConstants e s) = 0"
    and "s_tex_matrices_changed (SetConstants e s) = (False, False)"
    and "\<not> bViewportChanged (SetConstants e s)"
    and "\<not> bProjectionChanged (SetConstants e s)"
  by (simp_all add: SetConstants_def SetConstants_fields)

lemma SetConstants_phong:
  shows "s_lights_phong (SetConstants e s) 0 = iRimBase e"
    and "s_lights_phong (SetConstants e s) 1 = iRimPower e"
    and "s_lights_phong (SetConstants e s) 2 = iRimIntesity e"
    and "s_lights_phong (SetConstants e s) 3 = iSpecularMultiplier e"
    and "s_lights_phong (SetConstants e s) 4 = iSimBumpStrength e"
    and "s_lights_phong (SetConstants e s) 5 = iSimBumpThreshold e"
    and "s_lights_phong (SetConstants e s) 6 = iSimBumpDetailBlend e"
    and "s_lights_phong (SetConstants e s) 7 = iSimBumpDetailFrequency e"
  by (simp_all only: SetConstants_def SetConstants_fields)

text \<open>A state in which no marker is set and the phong constants match the configuration.\<close>

lemma SetConstants_nothing_to_do:
  assumes "s_lights_phong s 0 = iRimBase e" and "s_lights_phong s 1 = iRimPower e"
    and "s_lights_phong s 2 = iRimIntesity e" and "s_lights_phong s 3 = iSpecularMultiplier e"
    and "s_lights_phong s 4 = iSimBumpStrength e" and "s_lights_phong s 5 = iSimBumpThreshold e"
    and "s_lights_phong s 6 = iSimBumpDetailBlend e"
    and "s_lights_phong s 7 = iSimBumpDetailFrequency e"
    and "fst (s_transform_matrices_changed s) < 0" and "fst (s_normal_matrices_changed s) < 0"
    and "fst (nPostTransformMatricesChanged s) < 0" and "fst (s_lights_changed s) < 0"
    and "s_materials_changed s = 0" and "s_tex_matrices_changed s = (False, False)"
    and "\<not> bViewportChanged s" and "\<not> bProjectionChanged s"
  shows "SetConstants e s = s"
proof -
  have 1: "set_phong_rim e s = s" using assms(1-4) by (simp add: set_phong_rim_def)
  have 2: "set_phong_bump e s = s" using assms(5-8) by (simp add: set_phong_bump_def)
  have 3: "upload_transform s = s" using assms(9) by (simp add: upload_transform_def)
  have 4: "upload_normal s = s" using assms(10) by (simp add: upload_normal_def)
  have 5: "upload_post s = s" using assms(11) by (simp add: upload_post_def)
  have 6: "upload_lights e s = s" using assms(12) by (simp add: upload_lights_def)
  have 7: "upload_materials s = s" using assms(13) by (simp add: upload_materials_def)
  have 8: "upload_tex_a e s = s" using assms(14) by (simp add: upload_tex_a_def)
  have 9: "upload_tex_b e s = s" using assms(14) by (simp add: upload_tex_b_def)
  have 10: "update_viewport e s = s" using assms(15) by (simp add: update_viewport_def)
  have 11: "update_projection e s = s" using assms(16) by (simp add: update_projection_def)
  show ?thesis by (simp only: SetConstants_def 1 2 3 4 5 6 7 8 9 10 11)
qed

lemma SetConstants_idem: "SetConstants e (SetConstants e s) = SetConstants e s"
proof (rule SetConstants_nothing_to_do)
  show "fst (s_transform_matrices_changed (SetConstants e s)) < 0"
    by (simp add: SetConstants_ranges)
  show "fst (s_normal_matrices_changed (SetConstants e s)) < 0"
    by (simp add: SetConstants_ranges)
  show "fst (nPostTransformMatricesChanged (SetConstants e s)) < 0"
    by (simp add: SetConstants_ranges)
  show "fst (s_lights_changed (SetConstants e s)) < 0"
    by (simp add: SetConstants_ranges)
qed (simp_all only: SetConstants_flags SetConstants_phong not_False_eq_True)

subsection \<open>Conversions between \<open>u32\<close> and \<open>int\<close>\<close>

lemma to_int_small:
  assumes "w < 0x80000000"
  shows "to_int w = uint w"
proof -
  from assms have "uint w < 2 ^ 31" by (simp add: word_less_def)
  moreover have "- (2 ^ 31) \<le> uint w" by (rule order_trans [of _ 0]) simp_all
  ultimately have "signed_take_bit 31 (uint w) = uint w"
    by (rule signed_take_bit_int_eq_self [rotated])
  then show ?thesis by (simp add: to_int_def sint_uint)
qed

lemma to_int_sub:
  assumes "b \<le> a" and "a < 0x80000000"
  shows "to_int (a - b) = uint a - uint b"
proof -
  from assms(1) have e: "uint (a - b) = uint a - uint b"
    by (simp add: uint_minus_simple_alt)
  have "a - b \<le> a" using assms(1) by (simp add: word_sub_le)
  from this assms(2) have "a - b < 0x80000000" by (rule le_less_trans)
  then show ?thesis by (simp only: to_int_small e)
qed

subsection \<open>Merging a range into a dirty interval\<close>

lemma merge_range_covers: "covers (merge_range r a b) a b"
  by (simp add: covers_def merge_range_def)

lemma merge_range_keeps: "fst r \<noteq> -1 \<Longrightarrow> covers r lo hi \<Longrightarrow> covers (merge_range r a b) lo hi"
  by (auto simp add: covers_def merge_range_def)

lemma merge_range_ok: "range_ok r \<Longrightarrow> 0 \<le> a \<Longrightarrow> range_ok (merge_range r a b)"
  by (auto simp add: range_ok_def merge_range_def)

subsection \<open>InvalidateXFRange, region by region\<close>

lemma invalidate_tex_ranges:
  shows "s_transform_matrices_changed (invalidate_tex c start s) = s_transform_matrices_changed s"
    and "s_normal_matrices_changed (invalidate_tex c start s) = s_normal_matrices_changed s"
    and "nPostTransformMatricesChanged (invalidate_tex c start s) = nPostTransformMatricesChanged s"
    and "s_lights_changed (invalidate_tex c start s) = s_lights_changed s"
  by (simp_all add: invalidate_tex_def Let_def)

lemma invalidate_transform_ranges:
  shows "s_normal_matrices_changed (invalidate_transform m start end' s) =
           s_normal_matrices_changed s"
    and "nPostTransformMatricesChanged (invalidate_transform m start end' s) =
           nPostTransformMatricesChanged s"
    and "s_lights_changed (invalidate_transform m start end' s) = s_lights_changed s"
  by (simp_all add: invalidate_transform_def Let_def)

lemma invalidate_normal_ranges:
  shows "s_transform_matrices_changed (invalidate_normal m start end' s) =
           s_transform_matrices_changed s"
    and "nPostTransformMatricesChanged (invalidate_normal m start end' s) =
           nPostTransformMatricesChanged s"
    and "s_lights_changed (invalidate_normal m start end' s) = s_lights_changed s"
  by (simp_all add: invalidate_normal_def Let_def)

lemma invalidate_post_ranges:
  shows "s_transform_matrices_changed (invalidate_post m start end' s) =
           s_transform_matrices_changed s"
    and "s_normal_matrices_changed (invalidate_post m start end' s) =
           s_normal_matrices_changed s"
    and "s_lights_changed (invalidate_post m start end' s) = s_lights_changed s"
  by (simp_all add: invalidate_post_def Let_def)

lemma invalidate_lights_ranges:
  shows "s_transform_matrices_changed (invalidate_lights m start end' s) =
           s_transform_matrices_changed s"
    and "s_normal_matrices_changed (invalidate_lights m start end' s) =
           s_normal_matrices_changed s"
    and "nPostTransformMatricesChanged (invalidate_lights m start end' s) =
           nPostTransformMatricesChanged s"
  by (simp_all add: invalidate_lights_def Let_def)

lemmas InvalidateXFRange_ranges =
  invalidate_tex_ranges invalidate_transform_ranges invalidate_normal_ranges
  invalidate_post_ranges invalidate_lights_ranges

text \<open>The post-transform interval after the whole call is the one \<open>invalidate_post\<close> leaves.\<close>

lemma InvalidateXFRange_post:
  "nPostTransformMatricesChanged (InvalidateXFRange m c start end' s) =
     (if start < XFMEM_POSTMATRICES_END m \<and> XFMEM_POSTMATRICES m < end' then
        merge_range (nPostTransformMatricesChanged s)
          (to_int (if start < XFMEM_POSTMATRICES m then XFMEM_POSTMATRICES m
                   else start - XFMEM_POSTMATRICES m))
          (to_int (if end' < XFMEM_POSTMATRICES_END m then end' - XFMEM_POSTMATRICES m
                   else XFMEM_POSTMATRICES_END m - XFMEM_POSTMATRICES m))
      else nPostTransformMatricesChanged s)"
  by (simp add: InvalidateXFRange_def InvalidateXFRange_ranges)
    (simp add: invalidate_post_def InvalidateXFRange_ranges Let_def)

lemma InvalidateXFRange_normal:
  "s_normal_matrices_changed (InvalidateXFRange m c start end' s) =
     (if start < XFMEM_NORMALMATRICES_END m \<and> XFMEM_NORMALMATRICES m < end' then
        merge_range (s_normal_matrices_changed s)
          (to_int (if start < XFMEM_NORMALMATRICES m then 0
                   else start - XFMEM_NORMALMATRICES m))
          (to_int (if end' < XFMEM_NORMALMATRICES_END m then end' - XFMEM_NORMALMATRICES m
                   else XFMEM_NORMALMATRICES_END m - XFMEM_NORMALMATRICES m))
      else s_normal_matrices_changed s)"
  by (simp add: InvalidateXFRange_def InvalidateXFRange_ranges)
    (simp add: invalidate_normal_def InvalidateXFRange_ranges Let_def)

text \<open>The relative end of an overlapped region, for both regions below.\<close>

lemma relative_end:
  fixes base top end' :: u32
  assumes "base < end'" and "base \<le> top" and "top < 0x80000000"
  shows "to_int (if end' < top then end' - base else top - base) =
           min (uint end') (uint top) - uint base"
proof (cases "end' < top")
  case True
  have "end' < 0x80000000" by (rule less_trans [OF True assms(3)])
  moreover from assms(1) have "base \<le> end'" by simp
  ultimately have "to_int (end' - base) = uint end' - uint base" by (simp add: to_int_sub)
  moreover from True have "uint end' < uint top" by (simp add: word_less_def)
  ultimately show ?thesis using True by (simp add: min_def)
next
  case False
  then have "uint top \<le> uint end'" by (simp add: word_less_def not_less)
  moreover have "to_int (top - base) = uint top - uint base"
    using assms(2,3) by (simp add: to_int_sub)
  ultimately show ?thesis using False by (simp add: min_def)
qed

text \<open>
  The normal matrices: whatever \<open>start\<close>, the interval afterwards contains the overlapped
  range, relative to \<open>XFMEM_NORMALMATRICES\<close>.
\<close>

lemma InvalidateXFRange_normal_covers:
  assumes "start < 0x460" and "0x400 < end'"
  shows "covers (s_normal_matrices_changed (InvalidateXFRange gx_xfmem c start end' s))
           (max 0 (uint start - 0x400)) (min (uint end') 0x460 - 0x400)"
proof -
  have p: "s_normal_matrices_changed (InvalidateXFRange gx_xfmem c start end' s) =
             merge_range (s_normal_matrices_changed s)
               (to_int (if start < 0x400 then 0 else start - 0x400))
               (to_int (if end' < 0x460 then end' - 0x400 else 0x460 - 0x400))"
    using assms by (simp add: InvalidateXFRange_normal gx_xfmem_def split del: if_split cong: if_cong)
  have s: "to_int (if start < 0x400 then 0 else start - 0x400) = max 0 (uint start - 0x400)"
  proof (cases "start < 0x400")
    case True
    then have "uint start < 0x400" by (simp add: word_less_def)
    with True show ?thesis by (simp add: to_int_small)
  next
    case False
    then have le: "0x400 \<le> start" by simp
    from assms(1) have "start < 0x80000000" by (rule less_trans) simp
    with le have "to_int (start - 0x400) = uint start - 0x400" by (simp add: to_int_sub)
    moreover from le have "0x400 \<le> uint start" by (simp add: word_le_def)
    ultimately show ?thesis using False by simp
  qed
  have "to_int (if end' < 0x460 then end' - 0x400 else 0x460 - 0x400) =
          min (uint end') (uint (0x460 :: u32)) - uint (0x400 :: u32)"
    using assms(2) by (rule relative_end) simp_all
  also have "\<dots> = min (uint end') 0x460 - 0x400" by simp
  finally have e: "to_int (if end' < 0x460 then end' - 0x400 else 0x460 - 0x400) =
                     min (uint end') 0x460 - 0x400" .
  show ?thesis by (simp only: p s e merge_range_covers)
qed

text \<open>
  The post-transform matrices: the same holds when \<open>start\<close> lies inside the region.
\<close>

lemma InvalidateXFRange_post_covers_inside:
  assumes "0x500 \<le> start" and "start < 0x600" and "0x500 < end'"
  shows "covers (nPostTransformMatricesChanged (InvalidateXFRange gx_xfmem c start end' s))
           (uint start - 0x500) (min (uint end') 0x600 - 0x500)"
proof -
  have p: "nPostTransformMatricesChanged (InvalidateXFRange gx_xfmem c start end' s) =
             merge_range (nPostTransformMatricesChanged s)
               (to_int (if start < 0x500 then 0x500 else start - 0x500))
               (to_int (if end' < 0x600 then end' - 0x500 else 0x600 - 0x500))"
    using assms(2,3) by (simp add: InvalidateXFRange_post gx_xfmem_def split del: if_split cong: if_cong)
  from assms(2) have "start < 0x80000000" by (rule less_trans) simp
  with assms(1) have "to_int (start - 0x500) = uint start - 0x500"
    by (simp add: to_int_sub)
  moreover from assms(1) have "\<not> start < 0x500" by simp
  ultimately have s: "to_int (if start < 0x500 then 0x500 else start - 0x500) =
                        uint start - 0x500"
    by simp
  have "to_int (if end' < 0x600 then end' - 0x500 else 0x600 - 0x500) =
          min (uint end') (uint (0x600 :: u32)) - uint (0x500 :: u32)"
    using assms(3) by (rule relative_end) simp_all
  also have "\<dots> = min (uint end') 0x600 - 0x500" by simp
  finally have e: "to_int (if end' < 0x600 then end' - 0x500 else 0x600 - 0x500) =
                     min (uint end') 0x600 - 0x500" .
  show ?thesis by (simp only: p s e merge_range_covers)
qed

text \<open>
  For a \<open>start\<close> below the region and an empty interval, the recorded minimum is the
  region's base address, not 0.
\<close>

lemma InvalidateXFRange_post_below:
  assumes "start < 0x500" and "0x500 < end'" and "nPostTransformMatricesChanged s = (-1, -1)"
  shows "fst (nPostTransformMatricesChanged (InvalidateXFRange gx_xfmem c start end' s)) = 0x500"
proof -
  from assms(1) have "start < 0x600" by (rule less_trans) simp
  then have "nPostTransformMatricesChanged (InvalidateXFRange gx_xfmem c start end' s) =
             merge_range (nPostTransformMatricesChanged s)
               (to_int (if start < 0x500 then 0x500 else start - 0x500))
               (to_int (if end' < 0x600 then end' - 0x500 else 0x600 - 0x500))"
    using assms(2) by (simp add: InvalidateXFRange_post gx_xfmem_def split del: if_split cong: if_cong)
  then show ?thesis using assms(1,3) by (simp add: merge_range_def to_int_small)
qed

subsection \<open>The invariant of the dirty intervals\<close>

lemma dirty_inv_vs_zero: "dirty_inv vs_zero"
  by (simp add: dirty_inv_def range_ok_def vs_zero_def)

lemma dirty_inv_Dirty: "dirty_inv (Dirty s)"
  by (simp add: dirty_inv_def range_ok_def Dirty_def)

lemma dirty_inv_SetConstants: "dirty_inv s \<Longrightarrow> dirty_inv (SetConstants e s)"
  by (auto simp add: dirty_inv_def range_ok_def SetConstants_ranges)

lemma range_ok_empty: "range_ok r \<Longrightarrow> fst r < 0 \<Longrightarrow> r = (-1, -1)"
  by (auto simp add: range_ok_def)

lemma rel_start_nonneg:
  fixes start base top x :: u32
  assumes "start < top" and "top < 0x80000000" and "x < 0x80000000"
  shows "0 \<le> to_int (if start < base then x else start - base)"
proof (cases "start < base")
  case True
  with assms(3) show ?thesis by (simp add: to_int_small)
next
  case False
  then have le: "base \<le> start" by simp
  have "start < 0x80000000" by (rule less_trans [OF assms(1,2)])
  with le have "to_int (start - base) = uint start - uint base" by (simp add: to_int_sub)
  moreover from le have "uint base \<le> uint start" by (simp add: word_le_def)
  ultimately show ?thesis using False by simp
qed

lemma dirty_inv_invalidate_tex: "dirty_inv s \<Longrightarrow> dirty_inv (invalidate_tex c start s)"
  by (simp add: dirty_inv_def invalidate_tex_ranges)

lemma dirty_inv_invalidate_transform:
  assumes "dirty_inv s"
  shows "dirty_inv (invalidate_transform gx_xfmem start end' s)"
proof (cases "start < 0x100")
  case True
  then have "start < 0x80000000" by (rule less_trans) simp
  then have "to_int start = uint start" by (rule to_int_small)
  then have n: "0 \<le> to_int start" by simp
  from assms have "range_ok (s_transform_matrices_changed s)" by (simp add: dirty_inv_def)
  with n have "range_ok (s_transform_matrices_changed
                 (invalidate_transform gx_xfmem start end' s))"
    by (auto simp add: invalidate_transform_def Let_def range_ok_def)
  with assms show ?thesis by (simp add: dirty_inv_def invalidate_transform_ranges)
next
  case False
  with assms show ?thesis by (simp add: invalidate_transform_def gx_xfmem_def)
qed

lemma dirty_inv_invalidate_normal:
  assumes "dirty_inv s"
  shows "dirty_inv (invalidate_normal gx_xfmem start end' s)"
proof (cases "start < 0x460 \<and> 0x400 < end'")
  case True
  then have "0 \<le> to_int (if start < 0x400 then 0 else start - 0x400)"
    by (intro rel_start_nonneg [of start "0x460"]) simp_all
  moreover from assms have "range_ok (s_normal_matrices_changed s)" by (simp add: dirty_inv_def)
  ultimately have "range_ok (s_normal_matrices_changed
                     (invalidate_normal gx_xfmem start end' s))"
    using True
    by (simp add: invalidate_normal_def gx_xfmem_def Let_def merge_range_ok
        split del: if_split cong: if_cong)
  with assms show ?thesis by (simp add: dirty_inv_def invalidate_normal_ranges)
next
  case False
  with assms show ?thesis by (auto simp add: invalidate_normal_def gx_xfmem_def)
qed

lemma dirty_inv_invalidate_post:
  assumes "dirty_inv s"
  shows "dirty_inv (invalidate_post gx_xfmem start end' s)"
proof (cases "start < 0x600 \<and> 0x500 < end'")
  case True
  then have "0 \<le> to_int (if start < 0x500 then 0x500 else start - 0x500)"
    by (intro rel_start_nonneg [of start "0x600"]) simp_all
  moreover from assms have "range_ok (nPostTransformMatricesChanged s)"
    by (simp add: dirty_inv_def)
  ultimately have "range_ok (nPostTransformMatricesChanged
                     (invalidate_post gx_xfmem start end' s))"
    using True
    by (simp add: invalidate_post_def gx_xfmem_def Let_def merge_range_ok
        split del: if_split cong: if_cong)
  with assms show ?thesis by (simp add: dirty_inv_def invalidate_post_ranges)
next
  case False
  with assms show ?thesis by (auto simp add: invalidate_post_def gx_xfmem_def)
qed

lemma dirty_inv_invalidate_lights:
  assumes "dirty_inv s"
  shows "dirty_inv (invalidate_lights gx_xfmem start end' s)"
proof (cases "start < 0x680 \<and> 0x600 < end'")
  case True
  then have "0 \<le> to_int (if start < 0x600 then 0x600 else start - 0x600)"
    by (intro rel_start_nonneg [of start "0x680"]) simp_all
  moreover from assms have "range_ok (s_lights_changed s)" by (simp add: dirty_inv_def)
  ultimately have "range_ok (s_lights_changed (invalidate_lights gx_xfmem start end' s))"
    using True
    by (simp add: invalidate_lights_def gx_xfmem_def Let_def merge_range_ok
        split del: if_split cong: if_cong)
  with assms show ?thesis by (simp add: dirty_inv_def invalidate_lights_ranges)
next
  case False
  with assms show ?thesis by (auto simp add: invalidate_lights_def gx_xfmem_def)
qed

lemma dirty_inv_InvalidateXFRange:
  "dirty_inv s \<Longrightarrow> dirty_inv (InvalidateXFRange gx_xfmem c start end' s)"
  unfolding InvalidateXFRange_def
  by (intro dirty_inv_invalidate_lights dirty_inv_invalidate_post dirty_inv_invalidate_normal
      dirty_inv_invalidate_transform dirty_inv_invalidate_tex)

subsection \<open>The claims about VertexShaderManager\<close>

text \<open>
  Claim C4, evaluated where it fails. \<open>InvalidateXFRange(0x4FC, 0x504)\<close> overlaps the
  post-transform matrices (\<open>0x500\<close> to \<open>0x600\<close>) in its first 4 values, so the claim
  asks for a dirty interval containing 0 to 4. Starting from empty intervals the source
  records (1280, 4): the minimum is the region's base address. The interval does not
  contain 0, and the next \<open>SetConstants\<close> asks for an upload of -319 registers from
  \<open>postMatrices[1280]\<close>: none of the modified values is uploaded.
\<close>

theorem InvalidateXFRange_post_start_below_region:
  "nPostTransformMatricesChanged (InvalidateXFRange gx_xfmem cp_zero 0x4FC 0x504 vs_clean)
     = (1280, 4)
   \<and> \<not> covers (nPostTransformMatricesChanged
                  (InvalidateXFRange gx_xfmem cp_zero 0x4FC 0x504 vs_clean)) 0 4
   \<and> events (SetConstants env0 (InvalidateXFRange gx_xfmem cp_zero 0x4FC 0x504 vs_clean))
     = [SetMultiConstant4v C_POSTTRANSFORMMATRICES 320 (-319) (PostMatrices 1280)]
   \<and> s_normal_matrices_changed (InvalidateXFRange gx_xfmem cp_zero 0x3FC 0x404 vs_clean)
     = (0, 4)"
proof -
  have tex: "invalidate_tex cp_zero 0x4FC vs_clean =
               vs_clean\<lparr>s_tex_matrices_changed := (False, False)\<rparr>"
    by (simp add: invalidate_tex_def tex_hit_def cp_zero_def vs_clean_def)
  have tr: "invalidate_transform gx_xfmem 0x4FC 0x504 vs_clean = vs_clean"
    by (simp add: invalidate_transform_def gx_xfmem_def)
  have no: "invalidate_normal gx_xfmem 0x4FC 0x504 vs_clean = vs_clean"
    by (simp add: invalidate_normal_def gx_xfmem_def)
  have po: "invalidate_post gx_xfmem 0x4FC 0x504 vs_clean =
              vs_clean\<lparr>nPostTransformMatricesChanged := (1280, 4)\<rparr>"
    by (simp add: invalidate_post_def gx_xfmem_def merge_range_def to_int_def vs_clean_def)
  have li: "invalidate_lights gx_xfmem 0x4FC 0x504
              (vs_clean\<lparr>nPostTransformMatricesChanged := (1280, 4)\<rparr>) =
              vs_clean\<lparr>nPostTransformMatricesChanged := (1280, 4)\<rparr>"
    by (simp add: invalidate_lights_def gx_xfmem_def)
  have v: "vs_clean\<lparr>s_tex_matrices_changed := (False, False)\<rparr> = vs_clean"
    by (simp add: vs_clean_def)
  have inv: "InvalidateXFRange gx_xfmem cp_zero 0x4FC 0x504 vs_clean =
               vs_clean\<lparr>nPostTransformMatricesChanged := (1280, 4)\<rparr>"
    by (simp only: InvalidateXFRange_def tex v tr no po li)
  have 1: "nPostTransformMatricesChanged
             (InvalidateXFRange gx_xfmem cp_zero 0x4FC 0x504 vs_clean) = (1280, 4)"
    by (simp add: inv)
  have 2: "\<not> covers (nPostTransformMatricesChanged
             (InvalidateXFRange gx_xfmem cp_zero 0x4FC 0x504 vs_clean)) 0 4"
    by (simp only: 1) (simp add: covers_def)
  have 3: "events (SetConstants env0
             (InvalidateXFRange gx_xfmem cp_zero 0x4FC 0x504 vs_clean)) =
             [SetMultiConstant4v C_POSTTRANSFORMMATRICES 320 (-319) (PostMatrices 1280)]"
    by (simp only: inv)
      (simp add: SetConstants_def set_phong_rim_def set_phong_bump_def upload_transform_def
        upload_normal_def upload_post_def upload_lights_def upload_materials_def
        upload_tex_a_def upload_tex_b_def update_viewport_def update_projection_def
        emit_def c_div_def env0_def vs_clean_def Let_def)
  have 4: "s_normal_matrices_changed (InvalidateXFRange gx_xfmem cp_zero 0x3FC 0x404 vs_clean)
             = (0, 4)"
    by (simp add: InvalidateXFRange_normal gx_xfmem_def merge_range_def to_int_def
        vs_clean_def)
  show ?thesis by (intro conjI) (rule 1 2 3 4)+
qed

text \<open>
  Claim C5. In a state where each dirty interval is empty or has a non-negative minimum
  (every state \<open>Dirty\<close> and \<open>SetConstants\<close> produce), \<open>SetConstants\<close> leaves the four
  intervals at (-1, -1), the material flags at 0, both texture-matrix flags, the viewport
  flag and the projection flag false; and calling it again with the same environment
  changes nothing: no event is added and the state is the same.
\<close>

theorem SetConstants_clears_dirty_markers:
  assumes "dirty_inv s"
  shows "s_transform_matrices_changed (SetConstants e s) = (-1, -1)
     \<and> s_normal_matrices_changed (SetConstants e s) = (-1, -1)
     \<and> nPostTransformMatricesChanged (SetConstants e s) = (-1, -1)
     \<and> s_lights_changed (SetConstants e s) = (-1, -1)
     \<and> s_materials_changed (SetConstants e s) = 0
     \<and> s_tex_matrices_changed (SetConstants e s) = (False, False)
     \<and> \<not> bViewportChanged (SetConstants e s)
     \<and> \<not> bProjectionChanged (SetConstants e s)
     \<and> events (SetConstants e (SetConstants e s)) = events (SetConstants e s)
     \<and> SetConstants e (SetConstants e s) = SetConstants e s"
proof -
  from assms have inv: "dirty_inv (SetConstants e s)" by (rule dirty_inv_SetConstants)
  have "s_transform_matrices_changed (SetConstants e s) = (-1, -1)"
    using inv by (intro range_ok_empty) (simp_all add: dirty_inv_def SetConstants_ranges)
  moreover have "s_normal_matrices_changed (SetConstants e s) = (-1, -1)"
    using inv by (intro range_ok_empty) (simp_all add: dirty_inv_def SetConstants_ranges)
  moreover have "nPostTransformMatricesChanged (SetConstants e s) = (-1, -1)"
    using inv by (intro range_ok_empty) (simp_all add: dirty_inv_def SetConstants_ranges)
  moreover have "s_lights_changed (SetConstants e s) = (-1, -1)"
    using inv by (intro range_ok_empty) (simp_all add: dirty_inv_def SetConstants_ranges)
  ultimately show ?thesis
    by (simp only: SetConstants_flags SetConstants_idem simp_thms)
qed

theorem SetConstants_clears_dirty_markers_witness:
  "dirty_inv (Dirty vs_zero)
   \<and> nPostTransformMatricesChanged (Dirty vs_zero) = (0, 256)
   \<and> nPostTransformMatricesChanged (SetConstants env0 (Dirty vs_zero)) = (-1, -1)
   \<and> s_materials_changed (SetConstants env0 (Dirty vs_zero)) = 0
   \<and> SetConstants env0 (SetConstants env0 (Dirty vs_zero)) = SetConstants env0 (Dirty vs_zero)"
proof -
  have d: "dirty_inv (Dirty vs_zero)"
    by (simp add: dirty_inv_def range_ok_def Dirty_def)
  have p: "nPostTransformMatricesChanged (Dirty vs_zero) = (0, 256)"
    by (simp add: Dirty_def)
  from d p SetConstants_clears_dirty_markers [OF d, of env0] show ?thesis by blast
qed

section \<open>Properties of the ObjectCache\<close>

lemma GetOrAdd_result:
  assumes "GetOrAdd m uid = (it, m')"
  shows "m' uid = Some it" and "\<And>u. u \<noteq> uid \<Longrightarrow> m' u = m u"
    and "initialized it \<longleftrightarrow> (case m uid of None \<Rightarrow> False | Some i \<Rightarrow> initialized i)"
  using assms by (auto simp add: GetOrAdd_def default_item_def split: option.splits)

subsection \<open>Pipelines\<close>

lemma GetPipeline_hit:
  "m_pipeline_objects s info = Some p \<Longrightarrow> GetPipeline V info s = (p, s)"
  by (simp add: GetPipeline_def)

lemma GetPipeline_miss:
  fixes V :: "('v, 'g, 'p, 'w) Vulkan"
  assumes "m_pipeline_objects s info = None"
  shows "fst (GetPipeline V info s) =
           snd (fst (vkCreateGraphicsPipelines V (world s) (pipeline_create_info info)))"
    and "m_pipeline_objects (snd (GetPipeline V info s)) =
           (m_pipeline_objects s)(info \<mapsto> fst (GetPipeline V info s))"
    and "world (snd (GetPipeline V info s)) =
           snd (vkCreateGraphicsPipelines V (world s) (pipeline_create_info info))"
  using assms by (simp_all add: GetPipeline_def Let_def split: prod.splits)

lemma GetPipeline_others:
  fixes V :: "('v, 'g, 'p, 'w) Vulkan"
  shows "m_vs_cache (snd (GetPipeline V info s)) = m_vs_cache s"
    and "m_gs_cache (snd (GetPipeline V info s)) = m_gs_cache s"
    and "m_ps_cache (snd (GetPipeline V info s)) = m_ps_cache s"
    and "compile_attempts (snd (GetPipeline V info s)) = compile_attempts s"
  by (simp_all add: GetPipeline_def Let_def split: prod.splits option.splits)

lemma GetPipeline_keeps:
  fixes V :: "('v, 'g, 'p, 'w) Vulkan"
  assumes "m_pipeline_objects s i = Some p"
  shows "m_pipeline_objects (snd (GetPipeline V info s)) i = Some p"
proof (cases "m_pipeline_objects s info")
  case None
  with assms have "i \<noteq> info" by auto
  with assms show ?thesis by (simp add: GetPipeline_miss(2) [OF None])
next
  case (Some q)
  with assms show ?thesis by (simp add: GetPipeline_hit)
qed

subsection \<open>Vertex shaders\<close>

lemma CompileVertexShaderForUid_effect:
  fixes V :: "('v, 'g, 'p, 'w) Vulkan"
  assumes "CompileVertexShaderForUid V uid it s = (it', s')"
  shows "initialized it' = initialized it" and "compiled it'"
    and "m_pipeline_objects s' = m_pipeline_objects s"
    and "shader_map (m_vs_cache s') = shader_map (m_vs_cache s)"
    and "m_gs_cache s' = m_gs_cache s" and "m_ps_cache s' = m_ps_cache s"
    and "compile_attempts s' = compile_attempts s @ [Inl uid]"
  using assms
  by (auto simp add: CompileVertexShaderForUid_def append_disk_def Let_def
      split: prod.splits option.splits if_splits)

text \<open>What the compile function appends to the disk cache, and the module it records.\<close>

lemma CompileVertexShaderForUid_disk:
  fixes V :: "('v, 'g, 'p, 'w) Vulkan"
  shows "disk_cache (m_vs_cache (snd (CompileVertexShaderForUid V uid it s))) =
           disk_cache (m_vs_cache s) @
             (case both_succeed (CompileVertexShader V) (CreateShaderModule V) (world s) uid of
                None \<Rightarrow> [] | Some spv \<Rightarrow> [(uid, spv)])"
    and "both_succeed (CompileVertexShader V) (CreateShaderModule V) (world s) uid = None \<Longrightarrow>
           shader_module (fst (CompileVertexShaderForUid V uid it s)) = VK_NULL_HANDLE"
    and "fst (CompileVertexShader V (world s) uid) = None \<Longrightarrow>
           shader_module (fst (CompileVertexShaderForUid V uid it s)) = VK_NULL_HANDLE"
  by (auto simp add: CompileVertexShaderForUid_def both_succeed_def append_disk_def Let_def
      split: prod.splits option.splits if_splits)

lemma CompileVertexShaderForUid_module:
  fixes V :: "('v, 'g, 'p, 'w) Vulkan"
  shows "shader_module (fst (CompileVertexShaderForUid V uid it s)) =
           module_for (CompileVertexShader V) (CreateShaderModule V) (world s) uid"
  by (auto simp add: CompileVertexShaderForUid_def module_for_def Let_def
      split: prod.splits option.splits if_splits)

lemma GetVertexShaderForUid_hit:
  assumes "shader_map (m_vs_cache s) uid = Some it" and "initialized it"
  shows "GetVertexShaderForUid V uid s = (shader_module it, s)"
proof -
  from assms have "(shader_map (m_vs_cache s))(uid \<mapsto> it\<lparr>initialized := True\<rparr>) =
                     shader_map (m_vs_cache s)"
    by (auto simp add: fun_eq_iff)
  with assms show ?thesis
    by (simp add: GetVertexShaderForUid_def GetOrAdd_def)
qed

lemma GetVertexShaderForUid_miss:
  fixes V :: "('v, 'g, 'p, 'w) Vulkan"
  assumes "\<not> is_initialized (m_vs_cache s) uid"
    and "GetVertexShaderForUid V uid s = (m, s')"
  shows "compile_attempts s' = compile_attempts s @ [Inl uid]"
    and "\<exists>it. shader_map (m_vs_cache s') uid = Some it \<and> initialized it \<and> compiled it
           \<and> shader_module it = m"
    and "\<And>u. u \<noteq> uid \<Longrightarrow> shader_map (m_vs_cache s') u = shader_map (m_vs_cache s) u"
    and "shader_map (m_gs_cache s') = shader_map (m_gs_cache s)"
    and "shader_map (m_ps_cache s') = shader_map (m_ps_cache s)"
    and "m_pipeline_objects s' = m_pipeline_objects s"
    and "fst (CompileVertexShader V (world s) uid) = None \<Longrightarrow> m = VK_NULL_HANDLE"
    and "m = module_for (CompileVertexShader V) (CreateShaderModule V) (world s) uid"
proof -
  obtain it0 m0 where g: "GetOrAdd (shader_map (m_vs_cache s)) uid = (it0, m0)"
    by (cases "GetOrAdd (shader_map (m_vs_cache s)) uid")
  note g' = GetOrAdd_result [OF g]
  from assms(1) g'(3) have ni: "\<not> initialized it0" by (simp add: is_initialized_def)
  define s1 where
    "s1 = s\<lparr>m_vs_cache := (m_vs_cache s)\<lparr>shader_map := m0(uid \<mapsto> it0\<lparr>initialized := True\<rparr>)\<rparr>\<rparr>"
  obtain it' s2 where
    c: "CompileVertexShaderForUid V uid (it0\<lparr>initialized := True\<rparr>) s1 = (it', s2)"
    by (cases "CompileVertexShaderForUid V uid (it0\<lparr>initialized := True\<rparr>) s1")
  from assms(2) g ni c have res: "m = shader_module it'"
    "s' = s2\<lparr>m_vs_cache := put_item uid it' (m_vs_cache s2)\<rparr>"
    by (simp_all add: GetVertexShaderForUid_def Let_def s1_def)
  note e = CompileVertexShaderForUid_effect [OF c]
  show "compile_attempts s' = compile_attempts s @ [Inl uid]"
    by (simp add: res e s1_def)
  show "\<exists>it. shader_map (m_vs_cache s') uid = Some it \<and> initialized it \<and> compiled it
           \<and> shader_module it = m"
    by (simp add: res e put_item_def)
  show "shader_map (m_vs_cache s') u = shader_map (m_vs_cache s) u" if "u \<noteq> uid" for u
    using that by (simp add: res e put_item_def s1_def g')
  show "shader_map (m_gs_cache s') = shader_map (m_gs_cache s)"
    by (simp add: res e s1_def)
  show "shader_map (m_ps_cache s') = shader_map (m_ps_cache s)"
    by (simp add: res e s1_def)
  show "m_pipeline_objects s' = m_pipeline_objects s"
    by (simp add: res e s1_def)
  show "m = VK_NULL_HANDLE" if "fst (CompileVertexShader V (world s) uid) = None"
  proof -
    have "world s1 = world s" by (simp add: s1_def)
    with that CompileVertexShaderForUid_disk(3) [of V s1 uid "it0\<lparr>initialized := True\<rparr>"] c
    show ?thesis by (simp add: res)
  qed
  show "m = module_for (CompileVertexShader V) (CreateShaderModule V) (world s) uid"
  proof -
    have "world s1 = world s" by (simp add: s1_def)
    with CompileVertexShaderForUid_module [of V uid "it0\<lparr>initialized := True\<rparr>" s1] c
    show ?thesis by (simp add: res)
  qed
qed

text \<open>After a call the item of the UID is initialised and holds the module returned.\<close>

lemma GetVertexShaderForUid_caches:
  fixes V :: "('v, 'g, 'p, 'w) Vulkan"
  shows "\<exists>it. shader_map (m_vs_cache (snd (GetVertexShaderForUid V uid s))) uid = Some it
           \<and> initialized it \<and> shader_module it = fst (GetVertexShaderForUid V uid s)"
proof (cases "is_initialized (m_vs_cache s) uid")
  case True
  then obtain it where "shader_map (m_vs_cache s) uid = Some it" "initialized it"
    by (auto simp add: is_initialized_def split: option.splits)
  then show ?thesis by (simp add: GetVertexShaderForUid_hit)
next
  case False
  then show ?thesis
    using GetVertexShaderForUid_miss(2) [of s uid V "fst (GetVertexShaderForUid V uid s)"
        "snd (GetVertexShaderForUid V uid s)"]
    by auto
qed

text \<open>
  A call for any UID keeps the initialised items of the cache, and adds no attempt for
  their UIDs.
\<close>

lemma GetVertexShaderForUid_keeps:
  fixes V :: "('v, 'g, 'p, 'w) Vulkan"
  assumes "shader_map (m_vs_cache s) u = Some it" and "initialized it"
  shows "shader_map (m_vs_cache (snd (GetVertexShaderForUid V uid s))) u = Some it"
    and "count_list (compile_attempts (snd (GetVertexShaderForUid V uid s))) (Inl u) =
           count_list (compile_attempts s) (Inl u)"
proof -
  have "shader_map (m_vs_cache (snd (GetVertexShaderForUid V uid s))) u = Some it
        \<and> count_list (compile_attempts (snd (GetVertexShaderForUid V uid s))) (Inl u) =
           count_list (compile_attempts s) (Inl u)"
  proof (cases "is_initialized (m_vs_cache s) uid")
    case True
    then obtain it1 where "shader_map (m_vs_cache s) uid = Some it1" "initialized it1"
      by (auto simp add: is_initialized_def split: option.splits)
    then have "GetVertexShaderForUid V uid s = (shader_module it1, s)"
      by (rule GetVertexShaderForUid_hit)
    with assms show ?thesis by simp
  next
    case False
    with assms have ne: "u \<noteq> uid" by (auto simp add: is_initialized_def)
    note m = GetVertexShaderForUid_miss [OF False, of V "fst (GetVertexShaderForUid V uid s)"
        "snd (GetVertexShaderForUid V uid s)", simplified]
    from ne assms show ?thesis by (simp add: m(1) m(3))
  qed
  then show "shader_map (m_vs_cache (snd (GetVertexShaderForUid V uid s))) u = Some it"
    and "count_list (compile_attempts (snd (GetVertexShaderForUid V uid s))) (Inl u) =
           count_list (compile_attempts s) (Inl u)"
    by simp_all
qed

text \<open>A call leaves the other two shader maps and the pipeline map as they are.\<close>

lemma GetVertexShaderForUid_others:
  fixes V :: "('v, 'g, 'p, 'w) Vulkan"
  shows "shader_map (m_gs_cache (snd (GetVertexShaderForUid V uid s))) = shader_map (m_gs_cache s)"
    and "shader_map (m_ps_cache (snd (GetVertexShaderForUid V uid s))) = shader_map (m_ps_cache s)"
    and "m_pipeline_objects (snd (GetVertexShaderForUid V uid s)) = m_pipeline_objects s"
    and "count_list (compile_attempts (snd (GetVertexShaderForUid V uid s))) (Inr (Inl x)) =
           count_list (compile_attempts s) (Inr (Inl x))"
    and "count_list (compile_attempts (snd (GetVertexShaderForUid V uid s))) (Inr (Inr y)) =
           count_list (compile_attempts s) (Inr (Inr y))"
proof -
  have "shader_map (m_gs_cache (snd (GetVertexShaderForUid V uid s))) = shader_map (m_gs_cache s)
      \<and> shader_map (m_ps_cache (snd (GetVertexShaderForUid V uid s))) = shader_map (m_ps_cache s)
      \<and> m_pipeline_objects (snd (GetVertexShaderForUid V uid s)) = m_pipeline_objects s
      \<and> count_list (compile_attempts (snd (GetVertexShaderForUid V uid s))) (Inr (Inl x)) =
           count_list (compile_attempts s) (Inr (Inl x))
      \<and> count_list (compile_attempts (snd (GetVertexShaderForUid V uid s))) (Inr (Inr y)) =
           count_list (compile_attempts s) (Inr (Inr y))"
  proof (cases "is_initialized (m_vs_cache s) uid")
    case True
    then obtain it1 where "shader_map (m_vs_cache s) uid = Some it1" "initialized it1"
      by (auto simp add: is_initialized_def split: option.splits)
    then have "GetVertexShaderForUid V uid s = (shader_module it1, s)"
      by (rule GetVertexShaderForUid_hit)
    then show ?thesis by simp
  next
    case False
    note m = GetVertexShaderForUid_miss [OF False, of V "fst (GetVertexShaderForUid V uid s)"
        "snd (GetVertexShaderForUid V uid s)", simplified]
    show ?thesis by (simp add: m(1) m(4) m(5) m(6))
  qed
  then show "shader_map (m_gs_cache (snd (GetVertexShaderForUid V uid s))) = shader_map (m_gs_cache s)"
    and "shader_map (m_ps_cache (snd (GetVertexShaderForUid V uid s))) = shader_map (m_ps_cache s)"
    and "m_pipeline_objects (snd (GetVertexShaderForUid V uid s)) = m_pipeline_objects s"
    and "count_list (compile_attempts (snd (GetVertexShaderForUid V uid s))) (Inr (Inl x)) =
           count_list (compile_attempts s) (Inr (Inl x))"
    and "count_list (compile_attempts (snd (GetVertexShaderForUid V uid s))) (Inr (Inr y)) =
           count_list (compile_attempts s) (Inr (Inr y))"
    by simp_all
qed

subsection \<open>Geometry shaders\<close>

lemma CompileGeometryShaderForUid_effect:
  fixes V :: "('v, 'g, 'p, 'w) Vulkan"
  assumes "CompileGeometryShaderForUid V uid it s = (it', s')"
  shows "initialized it' = initialized it" and "compiled it'"
    and "m_pipeline_objects s' = m_pipeline_objects s"
    and "shader_map (m_gs_cache s') = shader_map (m_gs_cache s)"
    and "m_vs_cache s' = m_vs_cache s" and "m_ps_cache s' = m_ps_cache s"
    and "compile_attempts s' = compile_attempts s @ [Inr (Inl uid)]"
  using assms
  by (auto simp add: CompileGeometryShaderForUid_def append_disk_def Let_def
      split: prod.splits option.splits if_splits)

text \<open>What the compile function appends to the disk cache, and the module it records.\<close>

lemma CompileGeometryShaderForUid_disk:
  fixes V :: "('v, 'g, 'p, 'w) Vulkan"
  shows "disk_cache (m_gs_cache (snd (CompileGeometryShaderForUid V uid it s))) =
           disk_cache (m_gs_cache s) @
             (case both_succeed (CompileGeometryShader V) (CreateShaderModule V) (world s) uid of
                None \<Rightarrow> [] | Some spv \<Rightarrow> [(uid, spv)])"
    and "both_succeed (CompileGeometryShader V) (CreateShaderModule V) (world s) uid = None \<Longrightarrow>
           shader_module (fst (CompileGeometryShaderForUid V uid it s)) = VK_NULL_HANDLE"
    and "fst (CompileGeometryShader V (world s) uid) = None \<Longrightarrow>
           shader_module (fst (CompileGeometryShaderForUid V uid it s)) = VK_NULL_HANDLE"
  by (auto simp add: CompileGeometryShaderForUid_def both_succeed_def append_disk_def Let_def
      split: prod.splits option.splits if_splits)

lemma CompileGeometryShaderForUid_module:
  fixes V :: "('v, 'g, 'p, 'w) Vulkan"
  shows "shader_module (fst (CompileGeometryShaderForUid V uid it s)) =
           module_for (CompileGeometryShader V) (CreateShaderModule V) (world s) uid"
  by (auto simp add: CompileGeometryShaderForUid_def module_for_def Let_def
      split: prod.splits option.splits if_splits)

lemma GetGeometryShaderForUid_hit:
  assumes "shader_map (m_gs_cache s) uid = Some it" and "initialized it"
  shows "GetGeometryShaderForUid V uid s = (shader_module it, s)"
proof -
  from assms have "(shader_map (m_gs_cache s))(uid \<mapsto> it\<lparr>initialized := True\<rparr>) =
                     shader_map (m_gs_cache s)"
    by (auto simp add: fun_eq_iff)
  with assms show ?thesis
    by (simp add: GetGeometryShaderForUid_def GetOrAdd_def)
qed

lemma GetGeometryShaderForUid_miss:
  fixes V :: "('v, 'g, 'p, 'w) Vulkan"
  assumes "\<not> is_initialized (m_gs_cache s) uid"
    and "GetGeometryShaderForUid V uid s = (m, s')"
  shows "compile_attempts s' = compile_attempts s @ [Inr (Inl uid)]"
    and "\<exists>it. shader_map (m_gs_cache s') uid = Some it \<and> initialized it \<and> compiled it
           \<and> shader_module it = m"
    and "\<And>u. u \<noteq> uid \<Longrightarrow> shader_map (m_gs_cache s') u = shader_map (m_gs_cache s) u"
    and "shader_map (m_vs_cache s') = shader_map (m_vs_cache s)"
    and "shader_map (m_ps_cache s') = shader_map (m_ps_cache s)"
    and "m_pipeline_objects s' = m_pipeline_objects s"
    and "fst (CompileGeometryShader V (world s) uid) = None \<Longrightarrow> m = VK_NULL_HANDLE"
    and "m = module_for (CompileGeometryShader V) (CreateShaderModule V) (world s) uid"
proof -
  obtain it0 m0 where g: "GetOrAdd (shader_map (m_gs_cache s)) uid = (it0, m0)"
    by (cases "GetOrAdd (shader_map (m_gs_cache s)) uid")
  note g' = GetOrAdd_result [OF g]
  from assms(1) g'(3) have ni: "\<not> initialized it0" by (simp add: is_initialized_def)
  define s1 where
    "s1 = s\<lparr>m_gs_cache := (m_gs_cache s)\<lparr>shader_map := m0(uid \<mapsto> it0\<lparr>initialized := True\<rparr>)\<rparr>\<rparr>"
  obtain it' s2 where
    c: "CompileGeometryShaderForUid V uid (it0\<lparr>initialized := True\<rparr>) s1 = (it', s2)"
    by (cases "CompileGeometryShaderForUid V uid (it0\<lparr>initialized := True\<rparr>) s1")
  from assms(2) g ni c have res: "m = shader_module it'"
    "s' = s2\<lparr>m_gs_cache := put_item uid it' (m_gs_cache s2)\<rparr>"
    by (simp_all add: GetGeometryShaderForUid_def Let_def s1_def)
  note e = CompileGeometryShaderForUid_effect [OF c]
  show "compile_attempts s' = compile_attempts s @ [Inr (Inl uid)]"
    by (simp add: res e s1_def)
  show "\<exists>it. shader_map (m_gs_cache s') uid = Some it \<and> initialized it \<and> compiled it
           \<and> shader_module it = m"
    by (simp add: res e put_item_def)
  show "shader_map (m_gs_cache s') u = shader_map (m_gs_cache s) u" if "u \<noteq> uid" for u
    using that by (simp add: res e put_item_def s1_def g')
  show "shader_map (m_vs_cache s') = shader_map (m_vs_cache s)"
    by (simp add: res e s1_def)
  show "shader_map (m_ps_cache s') = shader_map (m_ps_cache s)"
    by (simp add: res e s1_def)
  show "m_pipeline_objects s' = m_pipeline_objects s"
    by (simp add: res e s1_def)
  show "m = VK_NULL_HANDLE" if "fst (CompileGeometryShader V (world s) uid) = None"
  proof -
    have "world s1 = world s" by (simp add: s1_def)
    with that CompileGeometryShaderForUid_disk(3) [of V s1 uid "it0\<lparr>initialized := True\<rparr>"] c
    show ?thesis by (simp add: res)
  qed
  show "m = module_for (CompileGeometryShader V) (CreateShaderModule V) (world s) uid"
  proof -
    have "world s1 = world s" by (simp add: s1_def)
    with CompileGeometryShaderForUid_module [of V uid "it0\<lparr>initialized := True\<rparr>" s1] c
    show ?thesis by (simp add: res)
  qed
qed

text \<open>After a call the item of the UID is initialised and holds the module returned.\<close>

lemma GetGeometryShaderForUid_caches:
  fixes V :: "('v, 'g, 'p, 'w) Vulkan"
  shows "\<exists>it. shader_map (m_gs_cache (snd (GetGeometryShaderForUid V uid s))) uid = Some it
           \<and> initialized it \<and> shader_module it = fst (GetGeometryShaderForUid V uid s)"
proof (cases "is_initialized (m_gs_cache s) uid")
  case True
  then obtain it where "shader_map (m_gs_cache s) uid = Some it" "initialized it"
    by (auto simp add: is_initialized_def split: option.splits)
  then show ?thesis by (simp add: GetGeometryShaderForUid_hit)
next
  case False
  then show ?thesis
    using GetGeometryShaderForUid_miss(2) [of s uid V "fst (GetGeometryShaderForUid V uid s)"
        "snd (GetGeometryShaderForUid V uid s)"]
    by auto
qed

text \<open>
  A call for any UID keeps the initialised items of the cache, and adds no attempt for
  their UIDs.
\<close>

lemma GetGeometryShaderForUid_keeps:
  fixes V :: "('v, 'g, 'p, 'w) Vulkan"
  assumes "shader_map (m_gs_cache s) u = Some it" and "initialized it"
  shows "shader_map (m_gs_cache (snd (GetGeometryShaderForUid V uid s))) u = Some it"
    and "count_list (compile_attempts (snd (GetGeometryShaderForUid V uid s))) (Inr (Inl u)) =
           count_list (compile_attempts s) (Inr (Inl u))"
proof -
  have "shader_map (m_gs_cache (snd (GetGeometryShaderForUid V uid s))) u = Some it
        \<and> count_list (compile_attempts (snd (GetGeometryShaderForUid V uid s))) (Inr (Inl u)) =
           count_list (compile_attempts s) (Inr (Inl u))"
  proof (cases "is_initialized (m_gs_cache s) uid")
    case True
    then obtain it1 where "shader_map (m_gs_cache s) uid = Some it1" "initialized it1"
      by (auto simp add: is_initialized_def split: option.splits)
    then have "GetGeometryShaderForUid V uid s = (shader_module it1, s)"
      by (rule GetGeometryShaderForUid_hit)
    with assms show ?thesis by simp
  next
    case False
    with assms have ne: "u \<noteq> uid" by (auto simp add: is_initialized_def)
    note m = GetGeometryShaderForUid_miss [OF False, of V "fst (GetGeometryShaderForUid V uid s)"
        "snd (GetGeometryShaderForUid V uid s)", simplified]
    from ne assms show ?thesis by (simp add: m(1) m(3))
  qed
  then show "shader_map (m_gs_cache (snd (GetGeometryShaderForUid V uid s))) u = Some it"
    and "count_list (compile_attempts (snd (GetGeometryShaderForUid V uid s))) (Inr (Inl u)) =
           count_list (compile_attempts s) (Inr (Inl u))"
    by simp_all
qed

text \<open>A call leaves the other two shader maps and the pipeline map as they are.\<close>

lemma GetGeometryShaderForUid_others:
  fixes V :: "('v, 'g, 'p, 'w) Vulkan"
  shows "shader_map (m_vs_cache (snd (GetGeometryShaderForUid V uid s))) = shader_map (m_vs_cache s)"
    and "shader_map (m_ps_cache (snd (GetGeometryShaderForUid V uid s))) = shader_map (m_ps_cache s)"
    and "m_pipeline_objects (snd (GetGeometryShaderForUid V uid s)) = m_pipeline_objects s"
    and "count_list (compile_attempts (snd (GetGeometryShaderForUid V uid s))) (Inl x) =
           count_list (compile_attempts s) (Inl x)"
    and "count_list (compile_attempts (snd (GetGeometryShaderForUid V uid s))) (Inr (Inr y)) =
           count_list (compile_attempts s) (Inr (Inr y))"
proof -
  have "shader_map (m_vs_cache (snd (GetGeometryShaderForUid V uid s))) = shader_map (m_vs_cache s)
      \<and> shader_map (m_ps_cache (snd (GetGeometryShaderForUid V uid s))) = shader_map (m_ps_cache s)
      \<and> m_pipeline_objects (snd (GetGeometryShaderForUid V uid s)) = m_pipeline_objects s
      \<and> count_list (compile_attempts (snd (GetGeometryShaderForUid V uid s))) (Inl x) =
           count_list (compile_attempts s) (Inl x)
      \<and> count_list (compile_attempts (snd (GetGeometryShaderForUid V uid s))) (Inr (Inr y)) =
           count_list (compile_attempts s) (Inr (Inr y))"
  proof (cases "is_initialized (m_gs_cache s) uid")
    case True
    then obtain it1 where "shader_map (m_gs_cache s) uid = Some it1" "initialized it1"
      by (auto simp add: is_initialized_def split: option.splits)
    then have "GetGeometryShaderForUid V uid s = (shader_module it1, s)"
      by (rule GetGeometryShaderForUid_hit)
    then show ?thesis by simp
  next
    case False
    note m = GetGeometryShaderForUid_miss [OF False, of V "fst (GetGeometryShaderForUid V uid s)"
        "snd (GetGeometryShaderForUid V uid s)", simplified]
    show ?thesis by (simp add: m(1) m(4) m(5) m(6))
  qed
  then show "shader_map (m_vs_cache (snd (GetGeometryShaderForUid V uid s))) = shader_map (m_vs_cache s)"
    and "shader_map (m_ps_cache (snd (GetGeometryShaderForUid V uid s))) = shader_map (m_ps_cache s)"
    and "m_pipeline_objects (snd (GetGeometryShaderForUid V uid s)) = m_pipeline_objects s"
    and "count_list (compile_attempts (snd (GetGeometryShaderForUid V uid s))) (Inl x) =
           count_list (compile_attempts s) (Inl x)"
    and "count_list (compile_attempts (snd (GetGeometryShaderForUid V uid s))) (Inr (Inr y)) =
           count_list (compile_attempts s) (Inr (Inr y))"
    by simp_all
qed

subsection \<open>Pixel shaders\<close>

lemma CompilePixelShaderForUid_effect:
  fixes V :: "('v, 'g, 'p, 'w) Vulkan"
  assumes "CompilePixelShaderForUid V uid it s = (it', s')"
  shows "initialized it' = initialized it" and "compiled it'"
    and "m_pipeline_objects s' = m_pipeline_objects s"
    and "shader_map (m_ps_cache s') = shader_map (m_ps_cache s)"
    and "m_vs_cache s' = m_vs_cache s" and "m_gs_cache s' = m_gs_cache s"
    and "compile_attempts s' = compile_attempts s @ [Inr (Inr uid)]"
  using assms
  by (auto simp add: CompilePixelShaderForUid_def append_disk_def Let_def
      split: prod.splits option.splits if_splits)

text \<open>What the compile function appends to the disk cache, and the module it records.\<close>

lemma CompilePixelShaderForUid_disk:
  fixes V :: "('v, 'g, 'p, 'w) Vulkan"
  shows "disk_cache (m_ps_cache (snd (CompilePixelShaderForUid V uid it s))) =
           disk_cache (m_ps_cache s) @
             (case both_succeed (CompileFragmentShader V) (CreateShaderModule V) (world s) uid of
                None \<Rightarrow> [] | Some spv \<Rightarrow> [(uid, spv)])"
    and "both_succeed (CompileFragmentShader V) (CreateShaderModule V) (world s) uid = None \<Longrightarrow>
           shader_module (fst (CompilePixelShaderForUid V uid it s)) = VK_NULL_HANDLE"
    and "fst (CompileFragmentShader V (world s) uid) = None \<Longrightarrow>
           shader_module (fst (CompilePixelShaderForUid V uid it s)) = VK_NULL_HANDLE"
  by (auto simp add: CompilePixelShaderForUid_def both_succeed_def append_disk_def Let_def
      split: prod.splits option.splits if_splits)

lemma CompilePixelShaderForUid_module:
  fixes V :: "('v, 'g, 'p, 'w) Vulkan"
  shows "shader_module (fst (CompilePixelShaderForUid V uid it s)) =
           module_for (CompileFragmentShader V) (CreateShaderModule V) (world s) uid"
  by (auto simp add: CompilePixelShaderForUid_def module_for_def Let_def
      split: prod.splits option.splits if_splits)

lemma GetPixelShaderForUid_hit:
  assumes "shader_map (m_ps_cache s) uid = Some it" and "initialized it"
  shows "GetPixelShaderForUid V uid s = (shader_module it, s)"
proof -
  from assms have "(shader_map (m_ps_cache s))(uid \<mapsto> it\<lparr>initialized := True\<rparr>) =
                     shader_map (m_ps_cache s)"
    by (auto simp add: fun_eq_iff)
  with assms show ?thesis
    by (simp add: GetPixelShaderForUid_def GetOrAdd_def)
qed

lemma GetPixelShaderForUid_miss:
  fixes V :: "('v, 'g, 'p, 'w) Vulkan"
  assumes "\<not> is_initialized (m_ps_cache s) uid"
    and "GetPixelShaderForUid V uid s = (m, s')"
  shows "compile_attempts s' = compile_attempts s @ [Inr (Inr uid)]"
    and "\<exists>it. shader_map (m_ps_cache s') uid = Some it \<and> initialized it \<and> compiled it
           \<and> shader_module it = m"
    and "\<And>u. u \<noteq> uid \<Longrightarrow> shader_map (m_ps_cache s') u = shader_map (m_ps_cache s) u"
    and "shader_map (m_vs_cache s') = shader_map (m_vs_cache s)"
    and "shader_map (m_gs_cache s') = shader_map (m_gs_cache s)"
    and "m_pipeline_objects s' = m_pipeline_objects s"
    and "fst (CompileFragmentShader V (world s) uid) = None \<Longrightarrow> m = VK_NULL_HANDLE"
    and "m = module_for (CompileFragmentShader V) (CreateShaderModule V) (world s) uid"
proof -
  obtain it0 m0 where g: "GetOrAdd (shader_map (m_ps_cache s)) uid = (it0, m0)"
    by (cases "GetOrAdd (shader_map (m_ps_cache s)) uid")
  note g' = GetOrAdd_result [OF g]
  from assms(1) g'(3) have ni: "\<not> initialized it0" by (simp add: is_initialized_def)
  define s1 where
    "s1 = s\<lparr>m_ps_cache := (m_ps_cache s)\<lparr>shader_map := m0(uid \<mapsto> it0\<lparr>initialized := True\<rparr>)\<rparr>\<rparr>"
  obtain it' s2 where
    c: "CompilePixelShaderForUid V uid (it0\<lparr>initialized := True\<rparr>) s1 = (it', s2)"
    by (cases "CompilePixelShaderForUid V uid (it0\<lparr>initialized := True\<rparr>) s1")
  from assms(2) g ni c have res: "m = shader_module it'"
    "s' = s2\<lparr>m_ps_cache := put_item uid it' (m_ps_cache s2)\<rparr>"
    by (simp_all add: GetPixelShaderForUid_def Let_def s1_def)
  note e = CompilePixelShaderForUid_effect [OF c]
  show "compile_attempts s' = compile_attempts s @ [Inr (Inr uid)]"
    by (simp add: res e s1_def)
  show "\<exists>it. shader_map (m_ps_cache s') uid = Some it \<and> initialized it \<and> compiled it
           \<and> shader_module it = m"
    by (simp add: res e put_item_def)
  show "shader_map (m_ps_cache s') u = shader_map (m_ps_cache s) u" if "u \<noteq> uid" for u
    using that by (simp add: res e put_item_def s1_def g')
  show "shader_map (m_vs_cache s') = shader_map (m_vs_cache s)"
    by (simp add: res e s1_def)
  show "shader_map (m_gs_cache s') = shader_map (m_gs_cache s)"
    by (simp add: res e s1_def)
  show "m_pipeline_objects s' = m_pipeline_objects s"
    by (simp add: res e s1_def)
  show "m = VK_NULL_HANDLE" if "fst (CompileFragmentShader V (world s) uid) = None"
  proof -
    have "world s1 = world s" by (simp add: s1_def)
    with that CompilePixelShaderForUid_disk(3) [of V s1 uid "it0\<lparr>initialized := True\<rparr>"] c
    show ?thesis by (simp add: res)
  qed
  show "m = module_for (CompileFragmentShader V) (CreateShaderModule V) (world s) uid"
  proof -
    have "world s1 = world s" by (simp add: s1_def)
    with CompilePixelShaderForUid_module [of V uid "it0\<lparr>initialized := True\<rparr>" s1] c
    show ?thesis by (simp add: res)
  qed
qed

text \<open>After a call the item of the UID is initialised and holds the module returned.\<close>

lemma GetPixelShaderForUid_caches:
  fixes V :: "('v, 'g, 'p, 'w) Vulkan"
  shows "\<exists>it. shader_map (m_ps_cache (snd (GetPixelShaderForUid V uid s))) uid = Some it
           \<and> initialized it \<and> shader_module it = fst (GetPixelShaderForUid V uid s)"
proof (cases "is_initialized (m_ps_cache s) uid")
  case True
  then obtain it where "shader_map (m_ps_cache s) uid = Some it" "initialized it"
    by (auto simp add: is_initialized_def split: option.splits)
  then show ?thesis by (simp add: GetPixelShaderForUid_hit)
next
  case False
  then show ?thesis
    using GetPixelShaderForUid_miss(2) [of s uid V "fst (GetPixelShaderForUid V uid s)"
        "snd (GetPixelShaderForUid V uid s)"]
    by auto
qed

text \<open>
  A call for any UID keeps the initialised items of the cache, and adds no attempt for
  their UIDs.
\<close>

lemma GetPixelShaderForUid_keeps:
  fixes V :: "('v, 'g, 'p, 'w) Vulkan"
  assumes "shader_map (m_ps_cache s) u = Some it" and "initialized it"
  shows "shader_map (m_ps_cache (snd (GetPixelShaderForUid V uid s))) u = Some it"
    and "count_list (compile_attempts (snd (GetPixelShaderForUid V uid s))) (Inr (Inr u)) =
           count_list (compile_attempts s) (Inr (Inr u))"
proof -
  have "shader_map (m_ps_cache (snd (GetPixelShaderForUid V uid s))) u = Some it
        \<and> count_list (compile_attempts (snd (GetPixelShaderForUid V uid s))) (Inr (Inr u)) =
           count_list (compile_attempts s) (Inr (Inr u))"
  proof (cases "is_initialized (m_ps_cache s) uid")
    case True
    then obtain it1 where "shader_map (m_ps_cache s) uid = Some it1" "initialized it1"
      by (auto simp add: is_initialized_def split: option.splits)
    then have "GetPixelShaderForUid V uid s = (shader_module it1, s)"
      by (rule GetPixelShaderForUid_hit)
    with assms show ?thesis by simp
  next
    case False
    with assms have ne: "u \<noteq> uid" by (auto simp add: is_initialized_def)
    note m = GetPixelShaderForUid_miss [OF False, of V "fst (GetPixelShaderForUid V uid s)"
        "snd (GetPixelShaderForUid V uid s)", simplified]
    from ne assms show ?thesis by (simp add: m(1) m(3))
  qed
  then show "shader_map (m_ps_cache (snd (GetPixelShaderForUid V uid s))) u = Some it"
    and "count_list (compile_attempts (snd (GetPixelShaderForUid V uid s))) (Inr (Inr u)) =
           count_list (compile_attempts s) (Inr (Inr u))"
    by simp_all
qed

text \<open>A call leaves the other two shader maps and the pipeline map as they are.\<close>

lemma GetPixelShaderForUid_others:
  fixes V :: "('v, 'g, 'p, 'w) Vulkan"
  shows "shader_map (m_vs_cache (snd (GetPixelShaderForUid V uid s))) = shader_map (m_vs_cache s)"
    and "shader_map (m_gs_cache (snd (GetPixelShaderForUid V uid s))) = shader_map (m_gs_cache s)"
    and "m_pipeline_objects (snd (GetPixelShaderForUid V uid s)) = m_pipeline_objects s"
    and "count_list (compile_attempts (snd (GetPixelShaderForUid V uid s))) (Inl x) =
           count_list (compile_attempts s) (Inl x)"
    and "count_list (compile_attempts (snd (GetPixelShaderForUid V uid s))) (Inr (Inl y)) =
           count_list (compile_attempts s) (Inr (Inl y))"
proof -
  have "shader_map (m_vs_cache (snd (GetPixelShaderForUid V uid s))) = shader_map (m_vs_cache s)
      \<and> shader_map (m_gs_cache (snd (GetPixelShaderForUid V uid s))) = shader_map (m_gs_cache s)
      \<and> m_pipeline_objects (snd (GetPixelShaderForUid V uid s)) = m_pipeline_objects s
      \<and> count_list (compile_attempts (snd (GetPixelShaderForUid V uid s))) (Inl x) =
           count_list (compile_attempts s) (Inl x)
      \<and> count_list (compile_attempts (snd (GetPixelShaderForUid V uid s))) (Inr (Inl y)) =
           count_list (compile_attempts s) (Inr (Inl y))"
  proof (cases "is_initialized (m_ps_cache s) uid")
    case True
    then obtain it1 where "shader_map (m_ps_cache s) uid = Some it1" "initialized it1"
      by (auto simp add: is_initialized_def split: option.splits)
    then have "GetPixelShaderForUid V uid s = (shader_module it1, s)"
      by (rule GetPixelShaderForUid_hit)
    then show ?thesis by simp
  next
    case False
    note m = GetPixelShaderForUid_miss [OF False, of V "fst (GetPixelShaderForUid V uid s)"
        "snd (GetPixelShaderForUid V uid s)", simplified]
    show ?thesis by (simp add: m(1) m(4) m(5) m(6))
  qed
  then show "shader_map (m_vs_cache (snd (GetPixelShaderForUid V uid s))) = shader_map (m_vs_cache s)"
    and "shader_map (m_gs_cache (snd (GetPixelShaderForUid V uid s))) = shader_map (m_gs_cache s)"
    and "m_pipeline_objects (snd (GetPixelShaderForUid V uid s)) = m_pipeline_objects s"
    and "count_list (compile_attempts (snd (GetPixelShaderForUid V uid s))) (Inl x) =
           count_list (compile_attempts s) (Inl x)"
    and "count_list (compile_attempts (snd (GetPixelShaderForUid V uid s))) (Inr (Inl y)) =
           count_list (compile_attempts s) (Inr (Inl y))"
    by simp_all
qed

subsection \<open>Sequences of calls keep what is cached\<close>

lemma exec_call_keeps_pipeline:
  fixes V :: "('v, 'g, 'p, 'w) Vulkan"
  assumes "m_pipeline_objects s i = Some p"
  shows "m_pipeline_objects (exec_call V c s) i = Some p"
  using assms
  by (cases c)
    (simp_all add: GetVertexShaderForUid_others GetGeometryShaderForUid_others
      GetPixelShaderForUid_others GetPipeline_keeps)

lemma exec_calls_keeps_pipeline:
  fixes V :: "('v, 'g, 'p, 'w) Vulkan"
  shows "m_pipeline_objects s i = Some p \<Longrightarrow> m_pipeline_objects (exec_calls V cs s) i = Some p"
  by (induction cs arbitrary: s) (simp_all add: exec_call_keeps_pipeline)

lemma exec_call_keeps_vs:
  fixes V :: "('v, 'g, 'p, 'w) Vulkan"
  assumes "shader_map (m_vs_cache s) u = Some it" and "initialized it"
  shows "shader_map (m_vs_cache (exec_call V c s)) u = Some it"
    and "count_list (compile_attempts (exec_call V c s)) (Inl u) =
           count_list (compile_attempts s) (Inl u)"
  using assms
  by (cases c;
      simp add: GetVertexShaderForUid_keeps GetGeometryShaderForUid_others
        GetPixelShaderForUid_others GetPipeline_others)+

lemma exec_calls_keeps_vs:
  fixes V :: "('v, 'g, 'p, 'w) Vulkan"
  shows "shader_map (m_vs_cache s) u = Some it \<Longrightarrow> initialized it \<Longrightarrow>
         shader_map (m_vs_cache (exec_calls V cs s)) u = Some it
         \<and> count_list (compile_attempts (exec_calls V cs s)) (Inl u) =
             count_list (compile_attempts s) (Inl u)"
  by (induction cs arbitrary: s) (simp_all add: exec_call_keeps_vs)

lemma exec_call_keeps_gs:
  fixes V :: "('v, 'g, 'p, 'w) Vulkan"
  assumes "shader_map (m_gs_cache s) u = Some it" and "initialized it"
  shows "shader_map (m_gs_cache (exec_call V c s)) u = Some it"
    and "count_list (compile_attempts (exec_call V c s)) (Inr (Inl u)) =
           count_list (compile_attempts s) (Inr (Inl u))"
  using assms
  by (cases c;
      simp add: GetGeometryShaderForUid_keeps GetVertexShaderForUid_others
        GetPixelShaderForUid_others GetPipeline_others)+

lemma exec_calls_keeps_gs:
  fixes V :: "('v, 'g, 'p, 'w) Vulkan"
  shows "shader_map (m_gs_cache s) u = Some it \<Longrightarrow> initialized it \<Longrightarrow>
         shader_map (m_gs_cache (exec_calls V cs s)) u = Some it
         \<and> count_list (compile_attempts (exec_calls V cs s)) (Inr (Inl u)) =
             count_list (compile_attempts s) (Inr (Inl u))"
  by (induction cs arbitrary: s) (simp_all add: exec_call_keeps_gs)

lemma exec_call_keeps_ps:
  fixes V :: "('v, 'g, 'p, 'w) Vulkan"
  assumes "shader_map (m_ps_cache s) u = Some it" and "initialized it"
  shows "shader_map (m_ps_cache (exec_call V c s)) u = Some it"
    and "count_list (compile_attempts (exec_call V c s)) (Inr (Inr u)) =
           count_list (compile_attempts s) (Inr (Inr u))"
  using assms
  by (cases c;
      simp add: GetPixelShaderForUid_keeps GetVertexShaderForUid_others
        GetGeometryShaderForUid_others GetPipeline_others)+

lemma exec_calls_keeps_ps:
  fixes V :: "('v, 'g, 'p, 'w) Vulkan"
  shows "shader_map (m_ps_cache s) u = Some it \<Longrightarrow> initialized it \<Longrightarrow>
         shader_map (m_ps_cache (exec_calls V cs s)) u = Some it
         \<and> count_list (compile_attempts (exec_calls V cs s)) (Inr (Inr u)) =
             count_list (compile_attempts s) (Inr (Inr u))"
  by (induction cs arbitrary: s) (simp_all add: exec_call_keeps_ps)

subsection \<open>A UID is compiled at most once\<close>

lemma GetVertexShaderForUid_once:
  fixes V :: "('v, 'g, 'p, 'w) Vulkan"
  shows "GetVertexShaderForUid V uid (exec_calls V cs (snd (GetVertexShaderForUid V uid s))) =
           (fst (GetVertexShaderForUid V uid s),
            exec_calls V cs (snd (GetVertexShaderForUid V uid s)))"
    and "count_list (compile_attempts
             (exec_calls V cs (snd (GetVertexShaderForUid V uid s)))) (Inl uid) =
           count_list (compile_attempts s) (Inl uid)
             + (if is_initialized (m_vs_cache s) uid then 0 else 1)"
    and "cached_module (m_vs_cache (snd (GetVertexShaderForUid V uid s))) uid =
           Some (fst (GetVertexShaderForUid V uid s))"
proof -
  obtain it where it: "shader_map (m_vs_cache (snd (GetVertexShaderForUid V uid s))) uid = Some it"
    "initialized it" "shader_module it = fst (GetVertexShaderForUid V uid s)"
    using GetVertexShaderForUid_caches [of V uid s] by blast
  note k = exec_calls_keeps_vs [OF it(1,2), of V cs]
  from k it(2,3)
  show "GetVertexShaderForUid V uid (exec_calls V cs (snd (GetVertexShaderForUid V uid s))) =
           (fst (GetVertexShaderForUid V uid s),
            exec_calls V cs (snd (GetVertexShaderForUid V uid s)))"
    by (simp add: GetVertexShaderForUid_hit)
  from it(1,3)
  show "cached_module (m_vs_cache (snd (GetVertexShaderForUid V uid s))) uid =
           Some (fst (GetVertexShaderForUid V uid s))"
    by (simp add: cached_module_def)
  have "count_list (compile_attempts (snd (GetVertexShaderForUid V uid s))) (Inl uid) =
          count_list (compile_attempts s) (Inl uid)
            + (if is_initialized (m_vs_cache s) uid then 0 else 1)"
  proof (cases "is_initialized (m_vs_cache s) uid")
    case True
    then obtain it1 where "shader_map (m_vs_cache s) uid = Some it1" "initialized it1"
      by (auto simp add: is_initialized_def split: option.splits)
    then have "GetVertexShaderForUid V uid s = (shader_module it1, s)"
      by (rule GetVertexShaderForUid_hit)
    with True show ?thesis by simp
  next
    case False
    note m = GetVertexShaderForUid_miss [OF False, of V "fst (GetVertexShaderForUid V uid s)"
        "snd (GetVertexShaderForUid V uid s)", simplified]
    from False show ?thesis by (simp add: m(1))
  qed
  with k
  show "count_list (compile_attempts
             (exec_calls V cs (snd (GetVertexShaderForUid V uid s)))) (Inl uid) =
           count_list (compile_attempts s) (Inl uid)
             + (if is_initialized (m_vs_cache s) uid then 0 else 1)"
    by simp
qed

lemma GetVertexShaderForUid_null_on_failure:
  fixes V :: "('v, 'g, 'p, 'w) Vulkan"
  assumes "\<not> is_initialized (m_vs_cache s) uid" and "fst (CompileVertexShader V (world s) uid) = None"
  shows "fst (GetVertexShaderForUid V uid s) = VK_NULL_HANDLE"
  using GetVertexShaderForUid_miss(7) [OF assms(1), of V "fst (GetVertexShaderForUid V uid s)"
      "snd (GetVertexShaderForUid V uid s)"] assms(2)
  by simp

lemma GetVertexShaderForUid_module_on_miss:
  fixes V :: "('v, 'g, 'p, 'w) Vulkan"
  assumes "\<not> is_initialized (m_vs_cache s) uid"
  shows "fst (GetVertexShaderForUid V uid s) =
           module_for (CompileVertexShader V) (CreateShaderModule V) (world s) uid"
  by (rule GetVertexShaderForUid_miss(8) [OF assms]) (rule prod.collapse [symmetric])

lemma GetVertexShaderForUid_cached_on_hit:
  fixes V :: "('v, 'g, 'p, 'w) Vulkan"
  assumes "is_initialized (m_vs_cache s) uid"
  shows "GetVertexShaderForUid V uid s = (the (cached_module (m_vs_cache s) uid), s)"
proof -
  from assms obtain it where it: "shader_map (m_vs_cache s) uid = Some it" "initialized it"
    by (auto simp add: is_initialized_def split: option.splits)
  then have "GetVertexShaderForUid V uid s = (shader_module it, s)"
    by (rule GetVertexShaderForUid_hit)
  with it(1) show ?thesis by (simp add: cached_module_def)
qed

lemma GetVertexShaderForUid_initializes:
  fixes V :: "('v, 'g, 'p, 'w) Vulkan"
  shows "is_initialized (m_vs_cache (snd (GetVertexShaderForUid V uid s))) uid"
  using GetVertexShaderForUid_caches [of V uid s] by (auto simp add: is_initialized_def)

lemma GetGeometryShaderForUid_once:
  fixes V :: "('v, 'g, 'p, 'w) Vulkan"
  shows "GetGeometryShaderForUid V uid (exec_calls V cs (snd (GetGeometryShaderForUid V uid s))) =
           (fst (GetGeometryShaderForUid V uid s),
            exec_calls V cs (snd (GetGeometryShaderForUid V uid s)))"
    and "count_list (compile_attempts
             (exec_calls V cs (snd (GetGeometryShaderForUid V uid s)))) (Inr (Inl uid)) =
           count_list (compile_attempts s) (Inr (Inl uid))
             + (if is_initialized (m_gs_cache s) uid then 0 else 1)"
    and "cached_module (m_gs_cache (snd (GetGeometryShaderForUid V uid s))) uid =
           Some (fst (GetGeometryShaderForUid V uid s))"
proof -
  obtain it where it: "shader_map (m_gs_cache (snd (GetGeometryShaderForUid V uid s))) uid = Some it"
    "initialized it" "shader_module it = fst (GetGeometryShaderForUid V uid s)"
    using GetGeometryShaderForUid_caches [of V uid s] by blast
  note k = exec_calls_keeps_gs [OF it(1,2), of V cs]
  from k it(2,3)
  show "GetGeometryShaderForUid V uid (exec_calls V cs (snd (GetGeometryShaderForUid V uid s))) =
           (fst (GetGeometryShaderForUid V uid s),
            exec_calls V cs (snd (GetGeometryShaderForUid V uid s)))"
    by (simp add: GetGeometryShaderForUid_hit)
  from it(1,3)
  show "cached_module (m_gs_cache (snd (GetGeometryShaderForUid V uid s))) uid =
           Some (fst (GetGeometryShaderForUid V uid s))"
    by (simp add: cached_module_def)
  have "count_list (compile_attempts (snd (GetGeometryShaderForUid V uid s))) (Inr (Inl uid)) =
          count_list (compile_attempts s) (Inr (Inl uid))
            + (if is_initialized (m_gs_cache s) uid then 0 else 1)"
  proof (cases "is_initialized (m_gs_cache s) uid")
    case True
    then obtain it1 where "shader_map (m_gs_cache s) uid = Some it1" "initialized it1"
      by (auto simp add: is_initialized_def split: option.splits)
    then have "GetGeometryShaderForUid V uid s = (shader_module it1, s)"
      by (rule GetGeometryShaderForUid_hit)
    with True show ?thesis by simp
  next
    case False
    note m = GetGeometryShaderForUid_miss [OF False, of V "fst (GetGeometryShaderForUid V uid s)"
        "snd (GetGeometryShaderForUid V uid s)", simplified]
    from False show ?thesis by (simp add: m(1))
  qed
  with k
  show "count_list (compile_attempts
             (exec_calls V cs (snd (GetGeometryShaderForUid V uid s)))) (Inr (Inl uid)) =
           count_list (compile_attempts s) (Inr (Inl uid))
             + (if is_initialized (m_gs_cache s) uid then 0 else 1)"
    by simp
qed

lemma GetGeometryShaderForUid_null_on_failure:
  fixes V :: "('v, 'g, 'p, 'w) Vulkan"
  assumes "\<not> is_initialized (m_gs_cache s) uid" and "fst (CompileGeometryShader V (world s) uid) = None"
  shows "fst (GetGeometryShaderForUid V uid s) = VK_NULL_HANDLE"
  using GetGeometryShaderForUid_miss(7) [OF assms(1), of V "fst (GetGeometryShaderForUid V uid s)"
      "snd (GetGeometryShaderForUid V uid s)"] assms(2)
  by simp

lemma GetGeometryShaderForUid_module_on_miss:
  fixes V :: "('v, 'g, 'p, 'w) Vulkan"
  assumes "\<not> is_initialized (m_gs_cache s) uid"
  shows "fst (GetGeometryShaderForUid V uid s) =
           module_for (CompileGeometryShader V) (CreateShaderModule V) (world s) uid"
  by (rule GetGeometryShaderForUid_miss(8) [OF assms]) (rule prod.collapse [symmetric])

lemma GetGeometryShaderForUid_cached_on_hit:
  fixes V :: "('v, 'g, 'p, 'w) Vulkan"
  assumes "is_initialized (m_gs_cache s) uid"
  shows "GetGeometryShaderForUid V uid s = (the (cached_module (m_gs_cache s) uid), s)"
proof -
  from assms obtain it where it: "shader_map (m_gs_cache s) uid = Some it" "initialized it"
    by (auto simp add: is_initialized_def split: option.splits)
  then have "GetGeometryShaderForUid V uid s = (shader_module it, s)"
    by (rule GetGeometryShaderForUid_hit)
  with it(1) show ?thesis by (simp add: cached_module_def)
qed

lemma GetGeometryShaderForUid_initializes:
  fixes V :: "('v, 'g, 'p, 'w) Vulkan"
  shows "is_initialized (m_gs_cache (snd (GetGeometryShaderForUid V uid s))) uid"
  using GetGeometryShaderForUid_caches [of V uid s] by (auto simp add: is_initialized_def)

lemma GetPixelShaderForUid_once:
  fixes V :: "('v, 'g, 'p, 'w) Vulkan"
  shows "GetPixelShaderForUid V uid (exec_calls V cs (snd (GetPixelShaderForUid V uid s))) =
           (fst (GetPixelShaderForUid V uid s),
            exec_calls V cs (snd (GetPixelShaderForUid V uid s)))"
    and "count_list (compile_attempts
             (exec_calls V cs (snd (GetPixelShaderForUid V uid s)))) (Inr (Inr uid)) =
           count_list (compile_attempts s) (Inr (Inr uid))
             + (if is_initialized (m_ps_cache s) uid then 0 else 1)"
    and "cached_module (m_ps_cache (snd (GetPixelShaderForUid V uid s))) uid =
           Some (fst (GetPixelShaderForUid V uid s))"
proof -
  obtain it where it: "shader_map (m_ps_cache (snd (GetPixelShaderForUid V uid s))) uid = Some it"
    "initialized it" "shader_module it = fst (GetPixelShaderForUid V uid s)"
    using GetPixelShaderForUid_caches [of V uid s] by blast
  note k = exec_calls_keeps_ps [OF it(1,2), of V cs]
  from k it(2,3)
  show "GetPixelShaderForUid V uid (exec_calls V cs (snd (GetPixelShaderForUid V uid s))) =
           (fst (GetPixelShaderForUid V uid s),
            exec_calls V cs (snd (GetPixelShaderForUid V uid s)))"
    by (simp add: GetPixelShaderForUid_hit)
  from it(1,3)
  show "cached_module (m_ps_cache (snd (GetPixelShaderForUid V uid s))) uid =
           Some (fst (GetPixelShaderForUid V uid s))"
    by (simp add: cached_module_def)
  have "count_list (compile_attempts (snd (GetPixelShaderForUid V uid s))) (Inr (Inr uid)) =
          count_list (compile_attempts s) (Inr (Inr uid))
            + (if is_initialized (m_ps_cache s) uid then 0 else 1)"
  proof (cases "is_initialized (m_ps_cache s) uid")
    case True
    then obtain it1 where "shader_map (m_ps_cache s) uid = Some it1" "initialized it1"
      by (auto simp add: is_initialized_def split: option.splits)
    then have "GetPixelShaderForUid V uid s = (shader_module it1, s)"
      by (rule GetPixelShaderForUid_hit)
    with True show ?thesis by simp
  next
    case False
    note m = GetPixelShaderForUid_miss [OF False, of V "fst (GetPixelShaderForUid V uid s)"
        "snd (GetPixelShaderForUid V uid s)", simplified]
    from False show ?thesis by (simp add: m(1))
  qed
  with k
  show "count_list (compile_attempts
             (exec_calls V cs (snd (GetPixelShaderForUid V uid s)))) (Inr (Inr uid)) =
           count_list (compile_attempts s) (Inr (Inr uid))
             + (if is_initialized (m_ps_cache s) uid then 0 else 1)"
    by simp
qed

lemma GetPixelShaderForUid_null_on_failure:
  fixes V :: "('v, 'g, 'p, 'w) Vulkan"
  assumes "\<not> is_initialized (m_ps_cache s) uid" and "fst (CompileFragmentShader V (world s) uid) = None"
  shows "fst (GetPixelShaderForUid V uid s) = VK_NULL_HANDLE"
  using GetPixelShaderForUid_miss(7) [OF assms(1), of V "fst (GetPixelShaderForUid V uid s)"
      "snd (GetPixelShaderForUid V uid s)"] assms(2)
  by simp

lemma GetPixelShaderForUid_module_on_miss:
  fixes V :: "('v, 'g, 'p, 'w) Vulkan"
  assumes "\<not> is_initialized (m_ps_cache s) uid"
  shows "fst (GetPixelShaderForUid V uid s) =
           module_for (CompileFragmentShader V) (CreateShaderModule V) (world s) uid"
  by (rule GetPixelShaderForUid_miss(8) [OF assms]) (rule prod.collapse [symmetric])

lemma GetPixelShaderForUid_cached_on_hit:
  fixes V :: "('v, 'g, 'p, 'w) Vulkan"
  assumes "is_initialized (m_ps_cache s) uid"
  shows "GetPixelShaderForUid V uid s = (the (cached_module (m_ps_cache s) uid), s)"
proof -
  from assms obtain it where it: "shader_map (m_ps_cache s) uid = Some it" "initialized it"
    by (auto simp add: is_initialized_def split: option.splits)
  then have "GetPixelShaderForUid V uid s = (shader_module it, s)"
    by (rule GetPixelShaderForUid_hit)
  with it(1) show ?thesis by (simp add: cached_module_def)
qed

lemma GetPixelShaderForUid_initializes:
  fixes V :: "('v, 'g, 'p, 'w) Vulkan"
  shows "is_initialized (m_ps_cache (snd (GetPixelShaderForUid V uid s))) uid"
  using GetPixelShaderForUid_caches [of V uid s] by (auto simp add: is_initialized_def)

subsection \<open>The claims about the ObjectCache\<close>

text \<open>
  Claim C2. \<open>GetPipeline\<close> goes through the pipeline map. When the \<open>PipelineInfo\<close> is in
  the map, the stored handle is returned and nothing changes: no pipeline is created. When
  it is not, the driver is asked for a pipeline, and whatever handle it gives is returned
  and stored under the info. Hence a later call with the same info, after any calls of
  the four lookup functions in between, returns the handle of the first call and again
  changes nothing.
\<close>

theorem GetPipeline_returns_cached_handle:
  fixes V :: "('v, 'g, 'p, 'w) Vulkan"
  shows "(m_pipeline_objects s info = Some p \<longrightarrow> GetPipeline V info s = (p, s))
    \<and> (m_pipeline_objects s info = None \<longrightarrow>
          fst (GetPipeline V info s) =
            snd (fst (vkCreateGraphicsPipelines V (world s) (pipeline_create_info info)))
        \<and> m_pipeline_objects (snd (GetPipeline V info s)) =
            (m_pipeline_objects s)(info \<mapsto> fst (GetPipeline V info s))
        \<and> world (snd (GetPipeline V info s)) =
            snd (vkCreateGraphicsPipelines V (world s) (pipeline_create_info info)))
    \<and> GetPipeline V info (exec_calls V cs (snd (GetPipeline V info s))) =
        (fst (GetPipeline V info s), exec_calls V cs (snd (GetPipeline V info s)))"
proof (intro conjI impI)
  assume "m_pipeline_objects s info = Some p"
  then show "GetPipeline V info s = (p, s)" by (rule GetPipeline_hit)
next
  assume n: "m_pipeline_objects s info = None"
  show "fst (GetPipeline V info s) =
          snd (fst (vkCreateGraphicsPipelines V (world s) (pipeline_create_info info)))"
    by (rule GetPipeline_miss(1) [OF n])
  show "m_pipeline_objects (snd (GetPipeline V info s)) =
          (m_pipeline_objects s)(info \<mapsto> fst (GetPipeline V info s))"
    by (rule GetPipeline_miss(2) [OF n])
  show "world (snd (GetPipeline V info s)) =
          snd (vkCreateGraphicsPipelines V (world s) (pipeline_create_info info))"
    by (rule GetPipeline_miss(3) [OF n])
next
  have "m_pipeline_objects (snd (GetPipeline V info s)) info = Some (fst (GetPipeline V info s))"
  proof (cases "m_pipeline_objects s info")
    case None
    then show ?thesis by (simp add: GetPipeline_miss(2))
  next
    case (Some q)
    then show ?thesis by (simp add: GetPipeline_hit)
  qed
  then have "m_pipeline_objects (exec_calls V cs (snd (GetPipeline V info s))) info =
               Some (fst (GetPipeline V info s))"
    by (rule exec_calls_keeps_pipeline)
  then show "GetPipeline V info (exec_calls V cs (snd (GetPipeline V info s))) =
               (fst (GetPipeline V info s), exec_calls V cs (snd (GetPipeline V info s)))"
    by (rule GetPipeline_hit)
qed

theorem GetPipeline_returns_cached_handle_witness:
  "m_pipeline_objects oc_init info0 = None
   \<and> fst (GetPipeline counting_vulkan info0 oc_init) = 1
   \<and> world (snd (GetPipeline counting_vulkan info0 oc_init)) = 1
   \<and> m_pipeline_objects (snd (GetPipeline counting_vulkan info0 oc_init)) info0 = Some 1
   \<and> GetPipeline counting_vulkan info0 (snd (GetPipeline counting_vulkan info0 oc_init)) =
       (1, snd (GetPipeline counting_vulkan info0 oc_init))
   \<and> GetPipeline counting_vulkan info0
        (exec_calls counting_vulkan [Call_GetVertexShaderForUid 5, Call_GetPipeline (info0\<lparr>vs := 9\<rparr>)]
          (snd (GetPipeline counting_vulkan info0 oc_init))) =
       (1, exec_calls counting_vulkan [Call_GetVertexShaderForUid 5, Call_GetPipeline (info0\<lparr>vs := 9\<rparr>)]
          (snd (GetPipeline counting_vulkan info0 oc_init)))"
proof -
  have n: "m_pipeline_objects oc_init info0 = None" by (simp add: oc_init_def)
  have c: "vkCreateGraphicsPipelines counting_vulkan (world oc_init) (pipeline_create_info info0)
             = ((VK_SUCCESS, 1), 1)"
    by (simp add: counting_vulkan_def oc_init_def)
  note t = GetPipeline_returns_cached_handle [where s = oc_init and info = info0 and p = 1
      and V = counting_vulkan
      and cs = "[Call_GetVertexShaderForUid 5, Call_GetPipeline (info0\<lparr>vs := 9\<rparr>)]"]
  from t n c have f: "fst (GetPipeline counting_vulkan info0 oc_init) = 1"
    and w: "world (snd (GetPipeline counting_vulkan info0 oc_init)) = 1"
    and m: "m_pipeline_objects (snd (GetPipeline counting_vulkan info0 oc_init)) info0 = Some 1"
    by simp_all
  note u = GetPipeline_returns_cached_handle
      [where s = "snd (GetPipeline counting_vulkan info0 oc_init)" and info = info0 and p = 1
        and V = counting_vulkan and cs = "[]"]
  from u m have h: "GetPipeline counting_vulkan info0 (snd (GetPipeline counting_vulkan info0 oc_init))
                      = (1, snd (GetPipeline counting_vulkan info0 oc_init))"
    by blast
  from t f have l: "GetPipeline counting_vulkan info0
        (exec_calls counting_vulkan [Call_GetVertexShaderForUid 5, Call_GetPipeline (info0\<lparr>vs := 9\<rparr>)]
          (snd (GetPipeline counting_vulkan info0 oc_init))) =
       (1, exec_calls counting_vulkan [Call_GetVertexShaderForUid 5, Call_GetPipeline (info0\<lparr>vs := 9\<rparr>)]
          (snd (GetPipeline counting_vulkan info0 oc_init)))"
    by simp
  from n f w m h l show ?thesis by (intro conjI)
qed

text \<open>
  Claim C3. Each of \<open>CompileVertexShaderForUid\<close>, \<open>CompileGeometryShaderForUid\<close> and
  \<open>CompilePixelShaderForUid\<close> appends the binary to its disk cache under the UID exactly
  when the compilation and the creation of the module both succeed. When either fails
  the disk cache is as before and the item gets the null module.
\<close>

theorem Compile_appends_iff_both_succeed:
  fixes V :: "('v, 'g, 'p, 'w) Vulkan"
  shows "disk_cache (m_vs_cache (snd (CompileVertexShaderForUid V uv it s))) =
           disk_cache (m_vs_cache s) @
             (case both_succeed (CompileVertexShader V) (CreateShaderModule V) (world s) uv of
                None \<Rightarrow> [] | Some spv \<Rightarrow> [(uv, spv)])
    \<and> (both_succeed (CompileVertexShader V) (CreateShaderModule V) (world s) uv = None \<longrightarrow>
          shader_module (fst (CompileVertexShaderForUid V uv it s)) = VK_NULL_HANDLE)
    \<and> disk_cache (m_gs_cache (snd (CompileGeometryShaderForUid V ug it s))) =
           disk_cache (m_gs_cache s) @
             (case both_succeed (CompileGeometryShader V) (CreateShaderModule V) (world s) ug of
                None \<Rightarrow> [] | Some spv \<Rightarrow> [(ug, spv)])
    \<and> (both_succeed (CompileGeometryShader V) (CreateShaderModule V) (world s) ug = None \<longrightarrow>
          shader_module (fst (CompileGeometryShaderForUid V ug it s)) = VK_NULL_HANDLE)
    \<and> disk_cache (m_ps_cache (snd (CompilePixelShaderForUid V up it s))) =
           disk_cache (m_ps_cache s) @
             (case both_succeed (CompileFragmentShader V) (CreateShaderModule V) (world s) up of
                None \<Rightarrow> [] | Some spv \<Rightarrow> [(up, spv)])
    \<and> (both_succeed (CompileFragmentShader V) (CreateShaderModule V) (world s) up = None \<longrightarrow>
          shader_module (fst (CompilePixelShaderForUid V up it s)) = VK_NULL_HANDLE)"
  by (intro conjI impI)
    (simp_all only: CompileVertexShaderForUid_disk CompileGeometryShaderForUid_disk
      CompilePixelShaderForUid_disk)

theorem Compile_appends_iff_both_succeed_witness:
  "both_succeed (CompileVertexShader counting_vulkan) (CreateShaderModule counting_vulkan)
      (world oc_init) 0 = None
   \<and> both_succeed (CompileGeometryShader counting_vulkan) (CreateShaderModule counting_vulkan)
      (world oc_init) 7 = None
   \<and> both_succeed (CompileFragmentShader counting_vulkan) (CreateShaderModule counting_vulkan)
      (world oc_init) 0 = None
   \<and> disk_cache (m_vs_cache (snd (CompileVertexShaderForUid counting_vulkan 0 default_item oc_init)))
      = []
   \<and> shader_module (fst (CompileVertexShaderForUid counting_vulkan 0 default_item oc_init))
      = VK_NULL_HANDLE
   \<and> shader_module (fst (CompileGeometryShaderForUid counting_vulkan 7 default_item oc_init))
      = VK_NULL_HANDLE
   \<and> shader_module (fst (CompilePixelShaderForUid counting_vulkan 0 default_item oc_init))
      = VK_NULL_HANDLE"
proof -
  have v: "both_succeed (CompileVertexShader counting_vulkan)
             (CreateShaderModule counting_vulkan) (world oc_init) 0 = None"
    by (simp add: both_succeed_def counting_vulkan_def)
  have g: "both_succeed (CompileGeometryShader counting_vulkan)
             (CreateShaderModule counting_vulkan) (world oc_init) 7 = None"
    by (simp add: both_succeed_def counting_vulkan_def VK_NULL_HANDLE_def)
  have p: "both_succeed (CompileFragmentShader counting_vulkan)
             (CreateShaderModule counting_vulkan) (world oc_init) 0 = None"
    by (simp add: both_succeed_def counting_vulkan_def)
  have d: "disk_cache (m_vs_cache oc_init) = []"
    by (simp add: oc_init_def empty_cache_def)
  note t = Compile_appends_iff_both_succeed [where V = counting_vulkan and uv = 0 and ug = 7
      and up = 0 and it = default_item and s = oc_init]
  from t v g p d show ?thesis by simp
qed

text \<open>
  Claim C8. For each of the three stages: when the UID's item is not yet initialised, a
  call of \<open>Get*ShaderForUid\<close> attempts one compilation and returns the module it yields,
  that is what \<open>CreateShaderModule\<close> gives for the compiled binary, or \<open>VK_NULL_HANDLE\<close>
  when the compiler fails; when the item is initialised, the call returns the cached
  module and changes nothing. Either way the item then holds the module returned, null
  or not; and after any further calls of the lookup functions, a call with the same UID
  returns the same module and changes nothing, so that the number of compilations
  attempted for the UID has grown by at most one.
\<close>

theorem GetShaderForUid_compiles_at_most_once:
  fixes V :: "('v, 'g, 'p, 'w) Vulkan"
  shows "GetVertexShaderForUid V uv (exec_calls V cs (snd (GetVertexShaderForUid V uv s))) =
           (fst (GetVertexShaderForUid V uv s),
            exec_calls V cs (snd (GetVertexShaderForUid V uv s)))
    \<and> count_list (compile_attempts
           (exec_calls V cs (snd (GetVertexShaderForUid V uv s)))) (Inl uv) =
         count_list (compile_attempts s) (Inl uv)
           + (if is_initialized (m_vs_cache s) uv then 0 else 1)
    \<and> cached_module (m_vs_cache (snd (GetVertexShaderForUid V uv s))) uv =
         Some (fst (GetVertexShaderForUid V uv s))
    \<and> (\<not> is_initialized (m_vs_cache s) uv \<and> fst (CompileVertexShader V (world s) uv) = None
          \<longrightarrow> fst (GetVertexShaderForUid V uv s) = VK_NULL_HANDLE)
    \<and> (\<not> is_initialized (m_vs_cache s) uv
          \<longrightarrow> fst (GetVertexShaderForUid V uv s) =
                module_for (CompileVertexShader V) (CreateShaderModule V) (world s) uv)
    \<and> (is_initialized (m_vs_cache s) uv
          \<longrightarrow> GetVertexShaderForUid V uv s = (the (cached_module (m_vs_cache s) uv), s))
    \<and> GetGeometryShaderForUid V ug (exec_calls V cs (snd (GetGeometryShaderForUid V ug s))) =
           (fst (GetGeometryShaderForUid V ug s),
            exec_calls V cs (snd (GetGeometryShaderForUid V ug s)))
    \<and> count_list (compile_attempts
           (exec_calls V cs (snd (GetGeometryShaderForUid V ug s)))) (Inr (Inl ug)) =
         count_list (compile_attempts s) (Inr (Inl ug))
           + (if is_initialized (m_gs_cache s) ug then 0 else 1)
    \<and> cached_module (m_gs_cache (snd (GetGeometryShaderForUid V ug s))) ug =
         Some (fst (GetGeometryShaderForUid V ug s))
    \<and> (\<not> is_initialized (m_gs_cache s) ug \<and> fst (CompileGeometryShader V (world s) ug) = None
          \<longrightarrow> fst (GetGeometryShaderForUid V ug s) = VK_NULL_HANDLE)
    \<and> (\<not> is_initialized (m_gs_cache s) ug
          \<longrightarrow> fst (GetGeometryShaderForUid V ug s) =
                module_for (CompileGeometryShader V) (CreateShaderModule V) (world s) ug)
    \<and> (is_initialized (m_gs_cache s) ug
          \<longrightarrow> GetGeometryShaderForUid V ug s = (the (cached_module (m_gs_cache s) ug), s))
    \<and> GetPixelShaderForUid V up (exec_calls V cs (snd (GetPixelShaderForUid V up s))) =
           (fst (GetPixelShaderForUid V up s),
            exec_calls V cs (snd (GetPixelShaderForUid V up s)))
    \<and> count_list (compile_attempts
           (exec_calls V cs (snd (GetPixelShaderForUid V up s)))) (Inr (Inr up)) =
         count_list (compile_attempts s) (Inr (Inr up))
           + (if is_initialized (m_ps_cache s) up then 0 else 1)
    \<and> cached_module (m_ps_cache (snd (GetPixelShaderForUid V up s))) up =
         Some (fst (GetPixelShaderForUid V up s))
    \<and> (\<not> is_initialized (m_ps_cache s) up \<and> fst (CompileFragmentShader V (world s) up) = None
          \<longrightarrow> fst (GetPixelShaderForUid V up s) = VK_NULL_HANDLE)
    \<and> (\<not> is_initialized (m_ps_cache s) up
          \<longrightarrow> fst (GetPixelShaderForUid V up s) =
                module_for (CompileFragmentShader V) (CreateShaderModule V) (world s) up)
    \<and> (is_initialized (m_ps_cache s) up
          \<longrightarrow> GetPixelShaderForUid V up s = (the (cached_module (m_ps_cache s) up), s))"
proof (intro conjI impI)
  assume "\<not> is_initialized (m_vs_cache s) uv \<and> fst (CompileVertexShader V (world s) uv) = None"
  then show "fst (GetVertexShaderForUid V uv s) = VK_NULL_HANDLE"
    by (elim conjE) (rule GetVertexShaderForUid_null_on_failure)
next
  assume "\<not> is_initialized (m_gs_cache s) ug \<and> fst (CompileGeometryShader V (world s) ug) = None"
  then show "fst (GetGeometryShaderForUid V ug s) = VK_NULL_HANDLE"
    by (elim conjE) (rule GetGeometryShaderForUid_null_on_failure)
next
  assume "\<not> is_initialized (m_ps_cache s) up \<and> fst (CompileFragmentShader V (world s) up) = None"
  then show "fst (GetPixelShaderForUid V up s) = VK_NULL_HANDLE"
    by (elim conjE) (rule GetPixelShaderForUid_null_on_failure)
next
  assume "\<not> is_initialized (m_vs_cache s) uv"
  then show "fst (GetVertexShaderForUid V uv s) =
               module_for (CompileVertexShader V) (CreateShaderModule V) (world s) uv"
    by (rule GetVertexShaderForUid_module_on_miss)
next
  assume "\<not> is_initialized (m_gs_cache s) ug"
  then show "fst (GetGeometryShaderForUid V ug s) =
               module_for (CompileGeometryShader V) (CreateShaderModule V) (world s) ug"
    by (rule GetGeometryShaderForUid_module_on_miss)
next
  assume "\<not> is_initialized (m_ps_cache s) up"
  then show "fst (GetPixelShaderForUid V up s) =
               module_for (CompileFragmentShader V) (CreateShaderModule V) (world s) up"
    by (rule GetPixelShaderForUid_module_on_miss)
next
  assume "is_initialized (m_vs_cache s) uv"
  then show "GetVertexShaderForUid V uv s = (the (cached_module (m_vs_cache s) uv), s)"
    by (rule GetVertexShaderForUid_cached_on_hit)
next
  assume "is_initialized (m_gs_cache s) ug"
  then show "GetGeometryShaderForUid V ug s = (the (cached_module (m_gs_cache s) ug), s)"
    by (rule GetGeometryShaderForUid_cached_on_hit)
next
  assume "is_initialized (m_ps_cache s) up"
  then show "GetPixelShaderForUid V up s = (the (cached_module (m_ps_cache s) up), s)"
    by (rule GetPixelShaderForUid_cached_on_hit)
qed (rule GetVertexShaderForUid_once GetGeometryShaderForUid_once GetPixelShaderForUid_once)+

theorem GetShaderForUid_compiles_at_most_once_witness:
  "\<not> is_initialized (m_vs_cache oc_init) 0
   \<and> fst (CompileVertexShader counting_vulkan (world oc_init) 0) = None
   \<and> fst (GetVertexShaderForUid counting_vulkan 0 oc_init) = VK_NULL_HANDLE
   \<and> \<not> is_initialized (m_gs_cache oc_init) 0
   \<and> fst (CompileGeometryShader counting_vulkan (world oc_init) 0) = None
   \<and> fst (GetGeometryShaderForUid counting_vulkan 0 oc_init) = VK_NULL_HANDLE
   \<and> \<not> is_initialized (m_ps_cache oc_init) 0
   \<and> fst (CompileFragmentShader counting_vulkan (world oc_init) 0) = None
   \<and> fst (GetPixelShaderForUid counting_vulkan 0 oc_init) = VK_NULL_HANDLE
   \<and> cached_module (m_vs_cache (snd (GetVertexShaderForUid counting_vulkan 0 oc_init))) 0 =
       Some VK_NULL_HANDLE
   \<and> count_list (compile_attempts
         (exec_calls counting_vulkan [Call_GetPixelShaderForUid 5, Call_GetVertexShaderForUid 0]
           (snd (GetVertexShaderForUid counting_vulkan 0 oc_init)))) (Inl 0) = 1
   \<and> \<not> is_initialized (m_vs_cache oc_init) 5
   \<and> fst (GetVertexShaderForUid counting_vulkan 5 oc_init) = 2
   \<and> \<not> is_initialized (m_ps_cache oc_init) 5
   \<and> fst (GetPixelShaderForUid counting_vulkan 5 oc_init) = 2
   \<and> is_initialized (m_vs_cache (snd (GetVertexShaderForUid counting_vulkan 5 oc_init))) 5
   \<and> GetVertexShaderForUid counting_vulkan 5
        (snd (GetVertexShaderForUid counting_vulkan 5 oc_init)) =
       (2, snd (GetVertexShaderForUid counting_vulkan 5 oc_init))"
proof -
  have i: "\<not> is_initialized (m_vs_cache oc_init) 0" "\<not> is_initialized (m_gs_cache oc_init) 0"
    "\<not> is_initialized (m_ps_cache oc_init) 0"
    and i5: "\<not> is_initialized (m_vs_cache oc_init) 5" "\<not> is_initialized (m_ps_cache oc_init) 5"
    by (simp_all add: is_initialized_def oc_init_def empty_cache_def)
  have c: "fst (CompileVertexShader counting_vulkan (world oc_init) 0) = None"
    "fst (CompileGeometryShader counting_vulkan (world oc_init) 0) = None"
    "fst (CompileFragmentShader counting_vulkan (world oc_init) 0) = None"
    by (simp_all add: counting_vulkan_def)
  have z: "count_list (compile_attempts oc_init) (Inl 0) = 0"
    by (simp add: oc_init_def)
  have m5: "module_for (CompileVertexShader counting_vulkan) (CreateShaderModule counting_vulkan)
              (world oc_init) 5 = 2"
    "module_for (CompileFragmentShader counting_vulkan) (CreateShaderModule counting_vulkan)
              (world oc_init) 5 = 2"
    by (simp_all add: module_for_def counting_vulkan_def oc_init_def)
  note t = GetShaderForUid_compiles_at_most_once [where V = counting_vulkan and s = oc_init
      and uv = 0 and ug = 0 and up = 0
      and cs = "[Call_GetPixelShaderForUid 5, Call_GetVertexShaderForUid 0]"]
  from t i c have r: "fst (GetVertexShaderForUid counting_vulkan 0 oc_init) = VK_NULL_HANDLE"
    "fst (GetGeometryShaderForUid counting_vulkan 0 oc_init) = VK_NULL_HANDLE"
    "fst (GetPixelShaderForUid counting_vulkan 0 oc_init) = VK_NULL_HANDLE"
    by blast+
  from t r(1) have m: "cached_module (m_vs_cache (snd (GetVertexShaderForUid counting_vulkan 0 oc_init))) 0 =
       Some VK_NULL_HANDLE"
    by simp
  from t i(1) z have n: "count_list (compile_attempts
         (exec_calls counting_vulkan [Call_GetPixelShaderForUid 5, Call_GetVertexShaderForUid 0]
           (snd (GetVertexShaderForUid counting_vulkan 0 oc_init)))) (Inl 0) = 1"
    by simp
  note t5 = GetShaderForUid_compiles_at_most_once [where V = counting_vulkan and s = oc_init
      and uv = 5 and ug = 0 and up = 5 and cs = "[]"]
  from t5 i5 have "fst (GetVertexShaderForUid counting_vulkan 5 oc_init) =
      module_for (CompileVertexShader counting_vulkan) (CreateShaderModule counting_vulkan)
        (world oc_init) 5"
    "fst (GetPixelShaderForUid counting_vulkan 5 oc_init) =
      module_for (CompileFragmentShader counting_vulkan) (CreateShaderModule counting_vulkan)
        (world oc_init) 5"
    by blast+
  with m5 have r5: "fst (GetVertexShaderForUid counting_vulkan 5 oc_init) = 2"
    "fst (GetPixelShaderForUid counting_vulkan 5 oc_init) = 2"
    by simp_all
  have h: "is_initialized (m_vs_cache (snd (GetVertexShaderForUid counting_vulkan 5 oc_init))) 5"
    by (rule GetVertexShaderForUid_initializes)
  note t6 = GetShaderForUid_compiles_at_most_once [where V = counting_vulkan
      and s = "snd (GetVertexShaderForUid counting_vulkan 5 oc_init)"
      and uv = 5 and ug = 0 and up = 0 and cs = "[]"]
  from t5 r5(1) have cm: "cached_module (m_vs_cache (snd (GetVertexShaderForUid counting_vulkan 5 oc_init))) 5
      = Some 2"
    by simp
  from t6 h have "GetVertexShaderForUid counting_vulkan 5
        (snd (GetVertexShaderForUid counting_vulkan 5 oc_init)) =
       (the (cached_module (m_vs_cache (snd (GetVertexShaderForUid counting_vulkan 5 oc_init))) 5),
        snd (GetVertexShaderForUid counting_vulkan 5 oc_init))"
    by blast
  with cm have l: "GetVertexShaderForUid counting_vulkan 5
        (snd (GetVertexShaderForUid counting_vulkan 5 oc_init)) =
       (2, snd (GetVertexShaderForUid counting_vulkan 5 oc_init))"
    by simp
  from i c r m n i5 r5 h l show ?thesis by (intro conjI)
qed

section \<open>Properties of LoadLut\<close>

lemma lut_record_fields:
  shows "m_last_lutFmt (lut_record e lutFmt addr size' s) = lutFmt"
    and "m_last_addr (lut_record e lutFmt addr size' s) = addr"
    and "m_last_size (lut_record e lutFmt addr size' s) = size'"
    and "m_last_hash (lut_record e lutFmt addr size' s) = m_last_hash s"
    and "streamed (lut_record e lutFmt addr size' s) =
           streamed s @ (if bSupportsPaletteConversion e then [(size', addr)] else [])"
    and "bSupportsPaletteConversion e \<Longrightarrow>
           s_last_TlutFormat (lut_record e lutFmt addr size' s) = lutFmt"
  by (simp_all add: lut_record_def Let_def)

lemma LoadLut_skips:
  assumes "same_as_last e lutFmt addr size' s" and "m_last_hash s \<noteq> 0"
  shows "LoadLut e lutFmt addr size' s = s"
  using assms by (auto simp add: LoadLut_def same_as_last_def Let_def)

lemma LoadLut_loads:
  assumes "\<not> (same_as_last e lutFmt addr size' s \<and> m_last_hash s \<noteq> 0)"
  shows "LoadLut e lutFmt addr size' s =
           lut_record e lutFmt addr size' (s\<lparr>m_last_hash := GetHash64 e addr size'\<rparr>)"
  using assms by (auto simp add: LoadLut_def same_as_last_def Let_def)

text \<open>
  Claim C6 as stated fails when the stored hash is 0. After a first
  \<open>LoadLut(1, 100, 32)\<close> on memory whose palette hashes to 0, a second call has the same
  format, address and size and finds the same hash, yet it streams the palette again: the
  source treats a stored hash of 0 as no hash at all.
\<close>

theorem LoadLut_zero_hash_streams_again:
  "same_as_last (lut_env 0) 1 100 32 (LoadLut (lut_env 0) 1 100 32 lut_init)
   \<and> streamed (LoadLut (lut_env 0) 1 100 32 lut_init) = [(32, 100)]
   \<and> streamed (LoadLut (lut_env 0) 1 100 32 (LoadLut (lut_env 0) 1 100 32 lut_init)) =
       [(32, 100), (32, 100)]"
proof -
  have 1: "LoadLut (lut_env 0) 1 100 32 lut_init =
             \<lparr>m_last_addr = 100, m_last_size = 32, m_last_hash = 0, m_last_lutFmt = 1,
              s_last_TlutFormat = 1, s_last_pallet_Buffer = 0, streamed = [(32, 100)]\<rparr>"
    by (simp add: LoadLut_def lut_record_def lut_env_def lut_init_def)
  have 2: "streamed (LoadLut (lut_env 0) 1 100 32
             \<lparr>m_last_addr = 100, m_last_size = 32, m_last_hash = 0, m_last_lutFmt = 1,
              s_last_TlutFormat = 1, s_last_pallet_Buffer = 0, streamed = [(32, 100)]\<rparr>) =
             [(32, 100), (32, 100)]"
    by (simp add: LoadLut_def lut_record_def lut_env_def)
  have 3: "same_as_last (lut_env 0) 1 100 32
             \<lparr>m_last_addr = 100, m_last_size = 32, m_last_hash = 0, m_last_lutFmt = 1,
              s_last_TlutFormat = 1, s_last_pallet_Buffer = 0, streamed = [(32, 100)]\<rparr>"
    by (simp add: same_as_last_def lut_env_def)
  from 2 3 show ?thesis by (simp add: 1)
qed

text \<open>
  Claim C6, amended. When the format, address and size are those of the previous call,
  the stored hash is not 0 and the data at the address still has that hash, \<open>LoadLut\<close>
  returns without streaming and without changing anything. In every other case it
  records the format, address, size and the hash of the data, and streams the palette
  when the backend supports palette conversion (and only then).
\<close>

theorem LoadLut_deduplicates:
  "(same_as_last e lutFmt addr size' s \<and> m_last_hash s \<noteq> 0 \<longrightarrow>
      LoadLut e lutFmt addr size' s = s)
   \<and> (\<not> (same_as_last e lutFmt addr size' s \<and> m_last_hash s \<noteq> 0) \<longrightarrow>
        m_last_lutFmt (LoadLut e lutFmt addr size' s) = lutFmt
      \<and> m_last_addr (LoadLut e lutFmt addr size' s) = addr
      \<and> m_last_size (LoadLut e lutFmt addr size' s) = size'
      \<and> m_last_hash (LoadLut e lutFmt addr size' s) = GetHash64 e addr size'
      \<and> streamed (LoadLut e lutFmt addr size' s) =
          streamed s @ (if bSupportsPaletteConversion e then [(size', addr)] else []))"
proof (intro conjI impI)
  assume "same_as_last e lutFmt addr size' s \<and> m_last_hash s \<noteq> 0"
  then show "LoadLut e lutFmt addr size' s = s" by (simp add: LoadLut_skips)
next
  assume n: "\<not> (same_as_last e lutFmt addr size' s \<and> m_last_hash s \<noteq> 0)"
  note l = LoadLut_loads [OF n]
  show "m_last_lutFmt (LoadLut e lutFmt addr size' s) = lutFmt"
    by (simp only: l lut_record_fields)
  show "m_last_addr (LoadLut e lutFmt addr size' s) = addr"
    by (simp only: l lut_record_fields)
  show "m_last_size (LoadLut e lutFmt addr size' s) = size'"
    by (simp only: l lut_record_fields)
  show "m_last_hash (LoadLut e lutFmt addr size' s) = GetHash64 e addr size'"
    by (simp add: l lut_record_fields)
  show "streamed (LoadLut e lutFmt addr size' s) =
          streamed s @ (if bSupportsPaletteConversion e then [(size', addr)] else [])"
    by (simp add: l lut_record_fields)
qed

theorem LoadLut_deduplicates_witness:
  "\<not> (same_as_last (lut_env 7) 1 100 32 lut_init \<and> m_last_hash lut_init \<noteq> 0)
   \<and> m_last_hash (LoadLut (lut_env 7) 1 100 32 lut_init) = 7
   \<and> streamed (LoadLut (lut_env 7) 1 100 32 lut_init) = [(32, 100)]
   \<and> same_as_last (lut_env 7) 1 100 32 (LoadLut (lut_env 7) 1 100 32 lut_init)
   \<and> LoadLut (lut_env 7) 1 100 32 (LoadLut (lut_env 7) 1 100 32 lut_init) =
       LoadLut (lut_env 7) 1 100 32 lut_init"
proof -
  have n: "\<not> (same_as_last (lut_env 7) 1 100 32 lut_init \<and> m_last_hash lut_init \<noteq> 0)"
    by (simp add: lut_init_def)
  note t = LoadLut_deduplicates [of "lut_env 7" 1 100 32 lut_init]
  from t n have f: "m_last_lutFmt (LoadLut (lut_env 7) 1 100 32 lut_init) = 1"
    "m_last_addr (LoadLut (lut_env 7) 1 100 32 lut_init) = 100"
    "m_last_size (LoadLut (lut_env 7) 1 100 32 lut_init) = 32"
    "m_last_hash (LoadLut (lut_env 7) 1 100 32 lut_init) = GetHash64 (lut_env 7) 100 32"
    "streamed (LoadLut (lut_env 7) 1 100 32 lut_init) =
       streamed lut_init @ (if bSupportsPaletteConversion (lut_env 7) then [(32, 100)] else [])"
    by blast+
  have h: "GetHash64 (lut_env 7) 100 32 = 7" by (simp add: lut_env_def)
  from f(4) h have h7: "m_last_hash (LoadLut (lut_env 7) 1 100 32 lut_init) = 7" by simp
  from f(5) have st: "streamed (LoadLut (lut_env 7) 1 100 32 lut_init) = [(32, 100)]"
    by (simp add: lut_env_def lut_init_def)
  from f(1-3) h h7 have sm: "same_as_last (lut_env 7) 1 100 32 (LoadLut (lut_env 7) 1 100 32 lut_init)"
    by (simp add: same_as_last_def)
  from h7 have nz: "m_last_hash (LoadLut (lut_env 7) 1 100 32 lut_init) \<noteq> 0" by simp
  from sm nz LoadLut_deduplicates [of "lut_env 7" 1 100 32 "LoadLut (lut_env 7) 1 100 32 lut_init"]
  have i: "LoadLut (lut_env 7) 1 100 32 (LoadLut (lut_env 7) 1 100 32 lut_init) =
             LoadLut (lut_env 7) 1 100 32 lut_init"
    by blast
  from n h7 st sm i show ?thesis by (intro conjI)
qed

section \<open>Properties of the eviction by frame age\<close>

lemma Cleanup_filter: "Cleanup f c = filter (\<lambda>x. f - frameCount (snd x) \<le> 120) c"
  by (simp add: Cleanup_def stale_def TEXTURE_KILL_THRESHOLD_def case_prod_unfold not_less)

text \<open>
  Claim C1. For every frame number \<open>f\<close>, \<open>Cleanup f\<close> removes every entry whose last use
  lies more than \<open>TEXTURE_KILL_THRESHOLD\<close> (120) frames before \<open>f\<close>, keeps every entry used
  within the last 120 frames, in its place, and adds none.
\<close>

theorem Cleanup_evicts_by_frame_age:
  "(\<forall>x \<in> set c. (120 < f - frameCount (snd x) \<longrightarrow> x \<notin> set (Cleanup f c))
                \<and> (f - frameCount (snd x) \<le> 120 \<longrightarrow> x \<in> set (Cleanup f c)))
   \<and> set (Cleanup f c) \<subseteq> set c
   \<and> Cleanup f c = filter (\<lambda>x. f - frameCount (snd x) \<le> 120) c"
  by (auto simp add: Cleanup_filter)

theorem Cleanup_evicts_by_frame_age_witness:
  "(0x2000, entry_used_in 100) \<in> set sample_cache
   \<and> 120 < 221 - frameCount (snd (0x2000 :: u64, entry_used_in 100))
   \<and> (0x2000, entry_used_in 100) \<notin> set (Cleanup 221 sample_cache)
   \<and> (0x3000, entry_used_in 200) \<in> set sample_cache
   \<and> 221 - frameCount (snd (0x3000 :: u64, entry_used_in 200)) \<le> 120
   \<and> (0x3000, entry_used_in 200) \<in> set (Cleanup 221 sample_cache)"
proof -
  have a: "(0x2000, entry_used_in 100) \<in> set sample_cache"
    and b: "(0x3000, entry_used_in 200) \<in> set sample_cache"
    by (simp_all add: sample_cache_def)
  have o: "120 < 221 - frameCount (snd (0x2000 :: u64, entry_used_in 100))"
    and y: "221 - frameCount (snd (0x3000 :: u64, entry_used_in 200)) \<le> 120"
    by (simp_all add: entry_used_in_def)
  note t = Cleanup_evicts_by_frame_age [of sample_cache 221]
  from t a o have r: "(0x2000, entry_used_in 100) \<notin> set (Cleanup 221 sample_cache)" by blast
  from t b y have k: "(0x3000, entry_used_in 200) \<in> set (Cleanup 221 sample_cache)" by blast
  from a o r b y k show ?thesis by (intro conjI)
qed

section \<open>Properties of the deferred binding\<close>












end
